theory Spec2Isabelle
  imports Complex_Main
begin

section \<open>Errors and tensors\<close>

text \<open>
  Exceptions of the Python source are values: every \<open>raise\<close> of the modelled functions is a
  branch returning \<open>Inl\<close> of the exception class. \<open>LibraryError\<close> stands for an exception
  raised inside a call of the tensor library whose class the source does not fix.
\<close>

datatype error = RuntimeError | ValueError | TypeError | IndexError | KeyError
  | AttributeError | ZeroDivisionError | AssertionError | LibraryError

definition and_then :: "error + 'a \<Rightarrow> ('a \<Rightarrow> error + 'b) \<Rightarrow> error + 'b" where
  "and_then r f = (case r of Inl e \<Rightarrow> Inl e | Inr x \<Rightarrow> f x)"

text \<open>
  A dense tensor: its shape and its entries in row-major (contiguous) order.
\<close>

record 'a tensor =
  shape :: "nat list"
  data :: "'a list"

definition zeros :: "nat list \<Rightarrow> real tensor" where
  "zeros shp = \<lparr>shape = shp, data = replicate (prod_list shp) 0\<rparr>"

definition at4 :: "'a tensor \<Rightarrow> nat \<Rightarrow> nat \<Rightarrow> nat \<Rightarrow> nat \<Rightarrow> 'a" where
  \<comment> \<open>entry \<open>t[i, j, k, l]\<close> of a contiguous 4-dimensional tensor\<close>
  "at4 t i j k l =
     (case shape t of
        [d0, d1, d2, d3] \<Rightarrow> data t ! (((i * d1 + j) * d2 + k) * d3 + l)
      | _ \<Rightarrow> undefined)"

definition cat_last :: "'a tensor \<Rightarrow> 'a tensor \<Rightarrow> error + 'a tensor" where
  \<comment> \<open>\<open>th.cat([a, b], dim=-1)\<close> on 4-dimensional tensors\<close>
  "cat_last a b =
     (case (shape a, shape b) of
        ([L, N, H, S], [L', N', H', S']) \<Rightarrow>
          if L = L' \<and> N = N' \<and> H = H' then
            Inr \<lparr>shape = [L, N, H, S + S'],
                 data = concat (map (\<lambda>r. take S (drop (r * S) (data a)) @
                                          take S' (drop (r * S') (data b)))
                                    [0..<L * N * H])\<rparr>
          else Inl RuntimeError
      | _ \<Rightarrow> Inl RuntimeError)"

definition einsum_lnhs_lsnh :: "'a tensor \<Rightarrow> error + 'a tensor" where
  \<comment> \<open>\<open>th.einsum("lnhs->lsnh", t).contiguous()\<close>\<close>
  "einsum_lnhs_lsnh t =
     (case shape t of
        [L, N, H, S] \<Rightarrow>
          Inr \<lparr>shape = [L, S, N, H],
               data = [at4 t l n h s. l \<leftarrow> [0..<L], s \<leftarrow> [0..<S], n \<leftarrow> [0..<N], h \<leftarrow> [0..<H]]\<rparr>
      | _ \<Rightarrow> Inl RuntimeError)"

definition einsum_slnh_lnhs :: "'a tensor \<Rightarrow> error + 'a tensor" where
  \<comment> \<open>\<open>th.einsum("slnh->lnhs", t).contiguous()\<close>\<close>
  "einsum_slnh_lnhs t =
     (case shape t of
        [S, L, N, H] \<Rightarrow>
          Inr \<lparr>shape = [L, N, H, S],
               data = [at4 t s l n h. l \<leftarrow> [0..<L], n \<leftarrow> [0..<N], h \<leftarrow> [0..<H], s \<leftarrow> [0..<S]]\<rparr>
      | _ \<Rightarrow> Inl RuntimeError)"

definition view :: "'a tensor \<Rightarrow> nat list \<Rightarrow> error + 'a tensor" where
  \<comment> \<open>\<open>t.view(shp)\<close> of a contiguous tensor, every size given: the entries stay in place\<close>
  "view t shp =
     (if prod_list shp = prod_list (shape t) then Inr (t\<lparr>shape := shp\<rparr>) else Inl RuntimeError)"

definition slice_first :: "nat \<Rightarrow> 'a tensor \<Rightarrow> error + 'a tensor" where
  \<comment> \<open>\<open>t[:k]\<close>: the first \<open>k\<close> entries along the leading axis\<close>
  "slice_first k t =
     (case shape t of
        [] \<Rightarrow> Inl IndexError
      | d # ds \<Rightarrow> Inr \<lparr>shape = min k d # ds, data = take (min k d * prod_list ds) (data t)\<rparr>)"

section \<open>Relative-position shift of \<open>XlMultiheadAttention\<close>\<close>

definition rel_shift :: "real tensor \<Rightarrow> error + real tensor" where
  \<comment> \<open>\<open>XlMultiheadAttention._rel_shift\<close>\<close>
  "rel_shift rel_pos =
     (case shape rel_pos of
        [L, N, H, S] \<Rightarrow>
          (let zero_pad = zeros [L, N, H, 1] in
           and_then (cat_last rel_pos zero_pad) (\<lambda>rel_pos_pad.
           and_then (einsum_lnhs_lsnh rel_pos_pad) (\<lambda>rel_pos_pad.
           and_then (view rel_pos_pad [S + 1, L, N, H]) (\<lambda>rel_pos_pad.
           and_then (slice_first 1 rel_pos_pad) (\<lambda>rel_pos_pad.
           einsum_slnh_lnhs rel_pos_pad)))))
      | _ \<Rightarrow> Inl ValueError)"


section \<open>Python floats\<close>

text \<open>
  The values a Python \<open>float\<close> can take, as far as \<open>math.isfinite\<close> and truth testing
  tell them apart: a finite number, the two infinities, and not-a-number.
\<close>

datatype pyfloat = Finite real | PosInf | NegInf | NaN

fun isfinite :: "pyfloat \<Rightarrow> bool" where
  \<comment> \<open>\<open>math.isfinite\<close>\<close>
  "isfinite (Finite _) = True"
| "isfinite _ = False"

fun is_true :: "pyfloat option \<Rightarrow> bool" where
  \<comment> \<open>truth value of an \<open>Optional[float]\<close> in \<open>if x:\<close>: \<open>None\<close> and zero are false\<close>
  "is_true None = False"
| "is_true (Some (Finite x)) = (x \<noteq> 0)"
| "is_true (Some _) = True"

section \<open>\<open>ApexTrainer\<close>: one training step\<close>

text \<open>
  The trainer's mutable memory is split in two: \<open>params\<close>, the values of the model
  parameters of \<open>self.task\<close>, and \<open>world\<close>, everything else a call may touch (gradients,
  buffers, optimizer, amp, reporter and scheduler state). \<open>calls\<close> is a ghost log of the
  external calls made, in order, with the float each one handed back.
\<close>

datatype call = ZeroGrad | TaskForward | ScaleLossBackward | ClipGradNorm pyfloat
  | OptimizerStep | AddGaussianNoise pyfloat | ReporterLog pyfloat | ReporterUpdate
  | LrSchedulerStep

datatype task_obj = PlainTask | DDP task_obj
  \<comment> \<open>\<open>self.task\<close>: the task itself (it has the attribute \<open>nnet\<close>) or apex's
     \<open>DistributedDataParallel\<close> around a module (it has the attribute \<open>module\<close>)\<close>

record ('p, 'w) trainer =
  params :: 'p
  world :: 'w
  task :: task_obj
  distributed :: bool
  cuda_devices :: nat
  ssr :: real
  clip_gradient :: "pyfloat option"
  gaussian_noise_std :: "pyfloat option"
  calls :: "call list"

type_synonym stats = "string \<rightharpoonup> pyfloat"

text \<open>
  The collaborators of the step are not part of the repository's trainer: the task's forward
  pass, apex's scaled backward pass, \<open>clip_grad_norm_\<close>, the optimizer, \<open>add_gaussian_noise\<close>,
  the reporter and the scheduler. Each is a parameter acting on the memory.
\<close>

record ('p, 'w, 'e, 'sd) env =
  zero_grad :: "'p \<times> 'w \<Rightarrow> 'p \<times> 'w"
  task_forward :: "'e \<Rightarrow> real \<Rightarrow> 'p \<times> 'w \<Rightarrow> stats \<times> ('p \<times> 'w)"
  scale_loss_backward :: "stats \<Rightarrow> 'p \<times> 'w \<Rightarrow> 'p \<times> 'w"
  clip_grad_norm :: "pyfloat \<Rightarrow> 'p \<times> 'w \<Rightarrow> pyfloat \<times> ('p \<times> 'w)"
  optimizer_step :: "'p \<times> 'w \<Rightarrow> 'p \<times> 'w"
  add_gaussian_noise :: "pyfloat \<Rightarrow> 'p \<times> 'w \<Rightarrow> 'p \<times> 'w"
  learning_rate :: "'p \<times> 'w \<Rightarrow> pyfloat"
  reporter_log :: "pyfloat \<Rightarrow> 'p \<times> 'w \<Rightarrow> 'p \<times> 'w"
  reporter_update :: "stats \<Rightarrow> 'p \<times> 'w \<Rightarrow> 'p \<times> 'w"
  lr_scheduler_step :: "'p \<times> 'w \<Rightarrow> 'p \<times> 'w"
  amp_state_dict :: "'p \<times> 'w \<Rightarrow> 'sd"
  nnet_state_dict :: "'p \<times> 'w \<Rightarrow> 'sd"
  optimizer_state_dict :: "'p \<times> 'w \<Rightarrow> 'sd"
  lr_scheduler_state_dict :: "'p \<times> 'w \<Rightarrow> 'sd"

definition memory :: "('p, 'w) trainer \<Rightarrow> 'p \<times> 'w" where
  "memory tr = (params tr, world tr)"

definition run :: "call \<Rightarrow> ('p \<times> 'w \<Rightarrow> 'p \<times> 'w) \<Rightarrow> ('p, 'w) trainer \<Rightarrow> ('p, 'w) trainer" where
  \<comment> \<open>make an external call on the memory and log it\<close>
  "run c f tr =
     (let m = f (memory tr) in tr\<lparr>params := fst m, world := snd m, calls := calls tr @ [c]\<rparr>)"

definition keeps_params :: "('p \<times> 'w \<Rightarrow> 'p \<times> 'w) \<Rightarrow> bool" where
  \<comment> \<open>the call writes no model parameter\<close>
  "keeps_params f = (\<forall>m. fst (f m) = fst m)"

definition forward_pass ::
  "('p, 'w, 'e, 'sd) env \<Rightarrow> 'e \<Rightarrow> ('p, 'w) trainer \<Rightarrow> stats \<times> ('p, 'w) trainer" where
  \<comment> \<open>\<open>train_one_step\<close>, lines 115 to 117: \<open>self.optimizer.zero_grad()\<close> and
     \<open>stats = self.task(egs, ssr=self.ssr)\<close>\<close>
  "forward_pass env egs tr =
     (let tr1 = run ZeroGrad (zero_grad env) tr;
          r = task_forward env egs (ssr tr1) (memory tr1)
      in (fst r, run TaskForward (\<lambda>_. snd r) tr1))"

definition backward_clip ::
  "('p, 'w, 'e, 'sd) env \<Rightarrow> stats \<Rightarrow> ('p, 'w) trainer \<Rightarrow> pyfloat \<times> ('p, 'w) trainer" where
  \<comment> \<open>\<open>train_one_step\<close>, lines 121 to 133: the scaled backward pass, then \<open>norm = -1\<close> (here \<open>gnorm\<close>), replaced
     by the result of \<open>clip_grad_norm_\<close> when \<open>self.clip_gradient\<close> is true\<close>
  "backward_clip env stats tr =
     (let tr1 = run ScaleLossBackward (scale_loss_backward env stats) tr in
      case clip_gradient tr1 of
        None \<Rightarrow> (Finite (- 1), tr1)
      | Some c \<Rightarrow>
          if is_true (Some c) then
            (let r = clip_grad_norm env c (memory tr1)
             in (fst r, run (ClipGradNorm (fst r)) (\<lambda>_. snd r) tr1))
          else (Finite (- 1), tr1))"

definition after_optimizer_step ::
  "('p, 'w, 'e, 'sd) env \<Rightarrow> stats \<Rightarrow> pyfloat \<Rightarrow> ('p, 'w) trainer \<Rightarrow> ('p, 'w) trainer" where
  \<comment> \<open>\<open>train_one_step\<close>, lines 137 to 143: what follows \<open>self.optimizer.step()\<close>\<close>
  "after_optimizer_step env stats gnorm tr =
     (let tr1 = (case gaussian_noise_std tr of
                   None \<Rightarrow> tr
                 | Some std \<Rightarrow>
                     if is_true (Some std)
                     then run (AddGaussianNoise std) (add_gaussian_noise env std) tr
                     else tr);
          stats1 = (if gnorm \<noteq> Finite (- 1) then stats(''norm'' \<mapsto> gnorm) else stats);
          stats2 = stats1(''rate'' \<mapsto> learning_rate env (memory tr1));
          tr2 = run ReporterUpdate (reporter_update env stats2) tr1
      in run LrSchedulerStep (lr_scheduler_step env) tr2)"

definition train_one_step ::
  "('p, 'w, 'e, 'sd) env \<Rightarrow> 'e \<Rightarrow> ('p, 'w) trainer \<Rightarrow> error + bool \<times> ('p, 'w) trainer" where
  \<comment> \<open>\<open>ApexTrainer.train_one_step\<close>; \<open>stats["loss"]\<close> raises when the task reports no loss\<close>
  "train_one_step env egs tr =
     (case forward_pass env egs tr of (stats, tr1) \<Rightarrow>
      case stats ''loss'' of
        None \<Rightarrow> Inl KeyError
      | Some loss \<Rightarrow>
          if isfinite loss then
            (case backward_clip env stats tr1 of (gnorm, tr2) \<Rightarrow>
               if isfinite gnorm then
                 Inr (True, after_optimizer_step env stats gnorm
                              (run OptimizerStep (optimizer_step env) tr2))
               else Inr (False, run (ReporterLog gnorm) (reporter_log env gnorm) tr2))
          else Inr (False, run (ReporterLog loss) (reporter_log env loss) tr1))"

definition new_calls :: "('p, 'w) trainer \<Rightarrow> ('p, 'w) trainer \<Rightarrow> call list" where
  \<comment> \<open>the calls logged between two states of the trainer\<close>
  "new_calls tr tr' = drop (length (calls tr)) (calls tr')"


definition state_at_optimizer_step ::
  "('p, 'w, 'e, 'sd) env \<Rightarrow> 'e \<Rightarrow> ('p, 'w) trainer \<Rightarrow> ('p, 'w) trainer" where
  \<comment> \<open>the trainer at the moment \<open>self.optimizer.step()\<close> has returned (line 136)\<close>
  "state_at_optimizer_step env egs tr =
     (case forward_pass env egs tr of (stats, tr1) \<Rightarrow>
      case backward_clip env stats tr1 of (gnorm, tr2) \<Rightarrow>
        run OptimizerStep (optimizer_step env) tr2)"

definition step_skipped ::
  "('p, 'w, 'e, 'sd) env \<Rightarrow> 'e \<Rightarrow> ('p, 'w) trainer \<Rightarrow> bool" where
  \<comment> \<open>the step returns \<open>False\<close>, has not called \<open>optimizer.step\<close> and has left every parameter
     as it was\<close>
  "step_skipped env egs tr =
     (case train_one_step env egs tr of
        Inl _ \<Rightarrow> False
      | Inr (ok, tr') \<Rightarrow>
          \<not> ok \<and> params tr' = params tr \<and> OptimizerStep \<notin> set (new_calls tr tr'))"

section \<open>\<open>ApexTrainer\<close>: distributed setup and checkpoints\<close>

definition setup_distributed ::
  "('p \<times> 'w \<Rightarrow> 'p \<times> 'w) \<Rightarrow> ('p, 'w) trainer \<Rightarrow> ('p, 'w) trainer" where
  \<comment> \<open>\<open>ApexTrainer.setup_distributed\<close>; \<open>init\<close> is what \<open>convert_syncbn_model\<close>,
     \<open>amp.initialize\<close> and \<open>amp.load_state_dict\<close> do to the memory\<close>
  "setup_distributed init tr =
     (let m = init (memory tr);
          tr1 = tr\<lparr>params := fst m, world := snd m\<rparr>
      in if 2 \<le> cuda_devices tr1
         then tr1\<lparr>distributed := True, task := DDP (task tr1)\<rparr>
         else tr1\<lparr>distributed := False\<rparr>)"

datatype 'sd cpt_value = Epoch int | StateDict 'sd

definition model_state_dict ::
  "('p, 'w, 'e, 'sd) env \<Rightarrow> ('p, 'w) trainer \<Rightarrow> error + 'sd" where
  \<comment> \<open>\<open>self.task.module.nnet.state_dict() if self.distributed else self.task.nnet.state_dict()\<close>:
     a missing attribute raises\<close>
  "model_state_dict env tr =
     (if distributed tr then
        (case task tr of
           DDP PlainTask \<Rightarrow> Inr (nnet_state_dict env (memory tr))
         | _ \<Rightarrow> Inl AttributeError)
      else
        (case task tr of
           PlainTask \<Rightarrow> Inr (nnet_state_dict env (memory tr))
         | _ \<Rightarrow> Inl AttributeError))"

definition checkpoint_states ::
  "('p, 'w, 'e, 'sd) env \<Rightarrow> ('p, 'w) trainer \<Rightarrow> int \<Rightarrow> error + (string \<times> 'sd cpt_value) list"
  where
  \<comment> \<open>\<open>ApexTrainer.checkpoint_states\<close>: the dictionary in the order of its literal\<close>
  "checkpoint_states env tr epoch =
     and_then (model_state_dict env tr) (\<lambda>model.
       Inr [(''epoch'', Epoch epoch),
            (''amp_state_dict'', StateDict (amp_state_dict env (memory tr))),
            (''model_state_dict'', StateDict model),
            (''optim_state_dict'', StateDict (optimizer_state_dict env (memory tr))),
            (''lr_scheduler_dict'', StateDict (lr_scheduler_state_dict env (memory tr)))])"

definition task_attached :: "('p, 'w) trainer \<Rightarrow> bool" where
  \<comment> \<open>what \<open>setup_distributed\<close> leaves behind: the task is wrapped exactly when
     \<open>self.distributed\<close> is set\<close>
  "task_attached tr = (task tr = (if distributed tr then DDP PlainTask else PlainTask))"

text \<open>A small concrete trainer for running the definitions: one parameter, one gradient.\<close>

definition demo_env :: "(real, real, bool, real) env" where
  "demo_env =
     \<lparr>zero_grad = (\<lambda>m. (fst m, 0)),
      task_forward = (\<lambda>e r m. ([''loss'' \<mapsto> (if e then Finite 3 else NaN)], m)),
      scale_loss_backward = (\<lambda>st m. (fst m, 1)),
      clip_grad_norm = (\<lambda>c m. (if fst m < 0 then PosInf else Finite (snd m), m)),
      optimizer_step = (\<lambda>m. (fst m - snd m, snd m)),
      add_gaussian_noise = (\<lambda>std m. (case std of Finite x \<Rightarrow> (fst m + x, snd m) | _ \<Rightarrow> m)),
      learning_rate = (\<lambda>m. Finite 1),
      reporter_log = (\<lambda>x m. m),
      reporter_update = (\<lambda>st m. m),
      lr_scheduler_step = (\<lambda>m. m),
      amp_state_dict = (\<lambda>m. 0),
      nnet_state_dict = fst,
      optimizer_state_dict = snd,
      lr_scheduler_state_dict = (\<lambda>m. 1)\<rparr>"

definition demo_trainer :: "(real, real) trainer" where
  "demo_trainer =
     \<lparr>params = 5, world = 7, task = PlainTask, distributed = False, cuda_devices = 1,
      ssr = 0, clip_gradient = None, gaussian_noise_std = None, calls = []\<rparr>"

section \<open>Construction-time validation\<close>

datatype activation = ReLU | GELU

definition get_activation_fn :: "string \<Rightarrow> error + activation" where
  \<comment> \<open>\<open>_get_activation_fn\<close> of the transformer implementation\<close>
  "get_activation_fn activation =
     (if activation = ''relu'' then Inr ReLU
      else if activation = ''gelu'' then Inr GELU
      else Inl RuntimeError)"

text \<open>
  \<open>AttASR.__init__\<close>. The encoder, the attention and the decoder come from constructors
  outside the repository's model file; each may raise. \<open>**kwargs\<close> on \<open>None\<close> raises
  \<open>TypeError\<close> before the call is made.
\<close>

record ('k, 't) att_asr_args =
  input_size :: int
  vocab_size :: int
  sos :: int
  eos :: int
  ctc :: bool
  asr_transform :: "'t option"
  att_type :: string
  att_kwargs :: "'k option"
  encoder_type :: string
  encoder_proj :: int
  encoder_kwargs :: "'k option"
  decoder_dim :: int
  decoder_kwargs :: "'k option"

record ('k, 'enc, 'att, 'dec) att_asr_lib =
  encoder_instance :: "string \<Rightarrow> int \<Rightarrow> int \<Rightarrow> 'k \<Rightarrow> error + 'enc"
  att_instance :: "string \<Rightarrow> int \<Rightarrow> int \<Rightarrow> 'k \<Rightarrow> error + 'att"
  TorchDecoder :: "int \<Rightarrow> int \<Rightarrow> 'att \<Rightarrow> 'k \<Rightarrow> error + 'dec"

record ('enc, 'dec, 't) att_asr =
  asr_encoder :: 'enc
  asr_decoder :: 'dec
  asr_sos :: int
  asr_eos :: int
  asr_ctc :: "(int \<times> int) option"
  asr_transform_of :: "'t option"

definition unpack_kwargs :: "'k option \<Rightarrow> error + 'k" where
  "unpack_kwargs kw = (case kw of None \<Rightarrow> Inl TypeError | Some k \<Rightarrow> Inr k)"

definition AttASR_init ::
  "('k, 'enc, 'att, 'dec) att_asr_lib \<Rightarrow> ('k, 't) att_asr_args \<Rightarrow> error + ('enc, 'dec, 't) att_asr"
  where
  "AttASR_init lib a =
     and_then (unpack_kwargs (encoder_kwargs a)) (\<lambda>ekw.
     and_then (encoder_instance lib (encoder_type a) (input_size a) (encoder_proj a) ekw) (\<lambda>enc.
     and_then (unpack_kwargs (att_kwargs a)) (\<lambda>akw.
     and_then (att_instance lib (att_type a) (encoder_proj a) (decoder_dim a) akw) (\<lambda>att.
     and_then (unpack_kwargs (decoder_kwargs a)) (\<lambda>dkw.
     and_then (TorchDecoder lib (encoder_proj a)
                 (if ctc a then vocab_size a - 1 else vocab_size a) att dkw) (\<lambda>dec.
     if eos a < 0 \<or> sos a < 0 then Inl RuntimeError
     else Inr \<lparr>asr_encoder = enc, asr_decoder = dec, asr_sos = sos a, asr_eos = eos a,
               asr_ctc = (if ctc a then Some (encoder_proj a, vocab_size a) else None),
               asr_transform_of = asr_transform a\<rparr>))))))"

section \<open>The convolutional front-end: layers and shapes\<close>

text \<open>
  The front-end is followed at the level of tensor signatures: whether a tensor is complex,
  and its sizes. The layers of the tensor library are read by their documented contract on
  sizes: a \<open>Conv1d\<close> with stride 1 and no padding maps \<open>(n, in_channels, l)\<close> to
  \<open>(n, out_channels, l - kernel_size + 1)\<close>, a \<open>Linear\<close> replaces the last size
  \<open>in_features\<close> by \<open>out_features\<close>, a \<open>BatchNorm2d\<close> keeps the sizes of a 4-dimensional
  input with \<open>num_features\<close> channels and, in training mode, refuses a single value per
  channel; each rejects any other input by raising.
\<close>

record tsig =
  is_complex :: bool
  dims :: "nat list"

record conv1d =
  in_channels :: nat
  out_channels :: nat
  kernel_size :: nat
  groups :: nat

record complex_conv =
  conv_real :: conv1d
  conv_imag :: conv1d

record linear =
  weight_dims :: "nat list"

definition Conv1d :: "nat \<Rightarrow> nat \<Rightarrow> nat \<Rightarrow> nat \<Rightarrow> error + conv1d" where
  \<comment> \<open>\<open>nn.Conv1d(cin, cout, k, groups=g, padding=0, bias=False)\<close>\<close>
  "Conv1d cin cout k g =
     (if g = 0 \<or> cin mod g \<noteq> 0 \<or> cout mod g \<noteq> 0 then Inl LibraryError
      else Inr \<lparr>in_channels = cin, out_channels = cout, kernel_size = k, groups = g\<rparr>)"

definition ComplexConv1d :: "nat \<Rightarrow> nat \<Rightarrow> nat \<Rightarrow> nat \<Rightarrow> error + complex_conv" where
  \<comment> \<open>\<open>ComplexConvXd.__init__\<close> with \<open>nn.Conv1d\<close>: two layers from the same arguments\<close>
  "ComplexConv1d cin cout k g =
     and_then (Conv1d cin cout k g) (\<lambda>re.
     and_then (Conv1d cin cout k g) (\<lambda>im.
     Inr \<lparr>conv_real = re, conv_imag = im\<rparr>))"

definition Conv1d_apply :: "conv1d \<Rightarrow> nat list \<Rightarrow> error + nat list" where
  "Conv1d_apply c ds =
     (case ds of
        [n, ch, l] \<Rightarrow>
          if ch \<noteq> in_channels c \<or> l < kernel_size c then Inl RuntimeError
          else Inr [n, out_channels c, l - kernel_size c + 1]
      | _ \<Rightarrow> Inl RuntimeError)"

definition Linear_apply :: "linear \<Rightarrow> nat list \<Rightarrow> error + nat list" where
  "Linear_apply l ds =
     (case weight_dims l of
        [out_features, in_features] \<Rightarrow>
          if ds \<noteq> [] \<and> last ds = in_features then Inr (butlast ds @ [out_features])
          else Inl RuntimeError
      | _ \<Rightarrow> Inl RuntimeError)"

definition BatchNorm2d_apply :: "nat \<Rightarrow> bool \<Rightarrow> nat list \<Rightarrow> error + nat list" where
  "BatchNorm2d_apply num_features training ds =
     (case ds of
        [n, c, h, w] \<Rightarrow>
          if c \<noteq> num_features then Inl RuntimeError
          else if training \<and> n * h * w = 1 then Inl ValueError
          else Inr ds
      | _ \<Rightarrow> Inl ValueError)"

definition transpose_dims :: "nat \<Rightarrow> nat \<Rightarrow> nat list \<Rightarrow> error + nat list" where
  \<comment> \<open>sizes after \<open>t.transpose(i, j)\<close>\<close>
  "transpose_dims i j ds =
     (if i < length ds \<and> j < length ds then Inr (ds[i := ds ! j, j := ds ! i])
      else Inl IndexError)"

definition view_dims :: "nat list \<Rightarrow> int list \<Rightarrow> error + nat list" where
  \<comment> \<open>sizes after \<open>t.view(spec)\<close> on a contiguous tensor; one entry of \<open>spec\<close> may be \<open>-1\<close>
     and is then inferred from the number of entries\<close>
  "view_dims ds spec =
     (let n = prod_list ds;
          known = nat (prod_list (filter (\<lambda>d. d \<noteq> - 1) spec))
      in if list_ex (\<lambda>d. d < - 1) spec \<or> 1 < length (filter (\<lambda>d. d = - 1) spec)
         then Inl RuntimeError
         else if - 1 \<in> set spec then
           (if known = 0 \<or> n mod known \<noteq> 0 then Inl RuntimeError
            else Inr (map (\<lambda>d. if d = - 1 then n div known else nat d) spec))
         else if known = n then Inr (map nat spec)
         else Inl RuntimeError)"

fun broadcast_rev :: "nat list \<Rightarrow> nat list \<Rightarrow> error + nat list" where
  "broadcast_rev [] ys = Inr ys"
| "broadcast_rev xs [] = Inr xs"
| "broadcast_rev (x # xs) (y # ys) =
     (if x = y \<or> y = 1 then and_then (broadcast_rev xs ys) (\<lambda>r. Inr (x # r))
      else if x = 1 then and_then (broadcast_rev xs ys) (\<lambda>r. Inr (y # r))
      else Inl RuntimeError)"

definition broadcast :: "nat list \<Rightarrow> nat list \<Rightarrow> error + nat list" where
  \<comment> \<open>sizes of an elementwise operation: the sizes are aligned at the last axis, and two
     sizes agree when they are equal or one of them is 1\<close>
  "broadcast xs ys = and_then (broadcast_rev (rev xs) (rev ys)) (\<lambda>r. Inr (rev r))"

definition ComplexConvXd_forward_sig :: "complex_conv \<Rightarrow> tsig \<Rightarrow> bool \<Rightarrow> error + tsig" where
  \<comment> \<open>\<open>ComplexConvXd.forward\<close> on signatures: \<open>x.real\<close> and \<open>x.imag\<close> have the sizes of \<open>x\<close>\<close>
  "ComplexConvXd_forward_sig c x add_abs =
     (if \<not> is_complex x then Inl RuntimeError
      else
        and_then (Conv1d_apply (conv_real c) (dims x)) (\<lambda>rr.
        and_then (Conv1d_apply (conv_imag c) (dims x)) (\<lambda>ii.
        and_then (broadcast rr ii) (\<lambda>br.
        and_then (Conv1d_apply (conv_real c) (dims x)) (\<lambda>ri.
        and_then (Conv1d_apply (conv_imag c) (dims x)) (\<lambda>ir.
        and_then (broadcast ri ir) (\<lambda>bi.
        if \<not> add_abs then Inr \<lparr>is_complex = True, dims = br\<rparr>
        else and_then (broadcast br bi) (\<lambda>d. Inr \<lparr>is_complex = False, dims = d\<rparr>))))))))"

section \<open>\<open>TimeInvariantEnh\<close>\<close>

record enh_args =
  num_bins :: nat
  weight :: "string option"
  num_channels :: nat
  spatial_filters :: nat
  spectra_filters :: nat
  spectra_init :: string
  batchnorm :: bool
  apply_log :: bool

text \<open>
  What the constructor asks of code outside the front-end's file: \<open>th.load\<close> gives the
  sizes of the stored tensor, \<open>view_transposed\<close> is the re-view of the transposed weight
  (\<open>w.transpose(-1, -2).view(2, -1, 1, num_channels)\<close>), \<open>init_melfilter\<close> gives the sizes of
  the mel filter bank for a number of bins. Each may raise.
\<close>

record enh_lib =
  th_load :: "string \<Rightarrow> error + nat list"
  view_transposed :: "nat list \<Rightarrow> nat \<Rightarrow> error + unit"
  init_melfilter :: "nat \<Rightarrow> error + nat list"

record time_invariant_enh =
  enh_conv :: complex_conv
  enh_proj :: linear
  enh_norm :: "nat option"
  enh_B :: nat
  enh_C :: nat
  enh_apply_log :: bool
  enh_training :: bool

definition shape_at :: "nat list \<Rightarrow> nat \<Rightarrow> error + nat" where
  \<comment> \<open>\<open>w.shape[i]\<close>\<close>
  "shape_at ds i = (if i < length ds then Inr (ds ! i) else Inl IndexError)"

definition load_weight :: "enh_lib \<Rightarrow> enh_args \<Rightarrow> error + unit" where
  \<comment> \<open>the block under \<open>if weight:\<close>; \<open>None\<close> and the empty path are false\<close>
  "load_weight lib a =
     (case weight a of
        None \<Rightarrow> Inr ()
      | Some path \<Rightarrow>
          if path = [] then Inr ()
          else
            and_then (th_load lib path) (\<lambda>w.
            and_then (shape_at w 1) (\<lambda>w1.
            if w1 \<noteq> spatial_filters a then Inl RuntimeError
            else
              and_then (shape_at w 2) (\<lambda>w2.
              if w2 \<noteq> num_channels a then Inl RuntimeError
              else view_transposed lib w (num_channels a)))))"

definition TimeInvariantEnh_init :: "enh_lib \<Rightarrow> enh_args \<Rightarrow> error + time_invariant_enh" where
  \<comment> \<open>\<open>TimeInvariantEnh.__init__\<close>; a new module is in training mode\<close>
  "TimeInvariantEnh_init lib a =
     (if spectra_init a \<notin> set [''mel'', ''random''] then Inl ValueError
      else
        and_then (ComplexConv1d (num_bins a) (spatial_filters a * num_bins a)
                    (num_channels a) (num_bins a)) (\<lambda>cv.
        and_then (load_weight lib a) (\<lambda>_.
        and_then (if spectra_init a = ''mel''
                  then and_then (init_melfilter lib (num_bins a))
                         (\<lambda>mel_filter. Inr \<lparr>weight_dims = mel_filter\<rparr>)
                  else Inr \<lparr>weight_dims = [spectra_filters a, num_bins a]\<rparr>) (\<lambda>pj.
        Inr \<lparr>enh_conv = cv, enh_proj = pj,
             enh_norm = (if batchnorm a then Some (spatial_filters a) else None),
             enh_B = spatial_filters a, enh_C = num_channels a,
             enh_apply_log = apply_log a, enh_training = True\<rparr>))))"

definition TimeInvariantEnh_forward :: "time_invariant_enh \<Rightarrow> tsig \<Rightarrow> error + tsig" where
  \<comment> \<open>\<open>TimeInvariantEnh.forward\<close> on signatures; \<open>relu\<close>, \<open>log\<close> and \<open>contiguous\<close> keep the
     sizes\<close>
  "TimeInvariantEnh_forward m x =
     (case dims x of
        [N, C, F, T] \<Rightarrow>
          if C \<noteq> enh_C m then Inl RuntimeError
          else
            and_then (transpose_dims 1 3 (dims x)) (\<lambda>d1.
            and_then (view_dims d1 [- 1, int F, int C]) (\<lambda>d2.
            and_then (ComplexConvXd_forward_sig (enh_conv m)
                        \<lparr>is_complex = is_complex x, dims = d2\<rparr> True) (\<lambda>b.
            and_then (view_dims (dims b) [- 1, int F, int (enh_B m)]) (\<lambda>d3.
            and_then (transpose_dims 1 2 d3) (\<lambda>d4.
            and_then (Linear_apply (enh_proj m) d4) (\<lambda>d5.
            and_then (view_dims d5 [int N, int T, int (enh_B m), - 1]) (\<lambda>d6.
            and_then (transpose_dims 1 2 d6) (\<lambda>d7.
            and_then (case enh_norm m of
                        None \<Rightarrow> Inr d7
                      | Some num_features \<Rightarrow>
                          BatchNorm2d_apply num_features (enh_training m) d7) (\<lambda>d8.
            and_then (transpose_dims 1 2 d8) (\<lambda>d9.
            and_then (view_dims d9 [int N, int T, - 1]) (\<lambda>d10.
            Inr \<lparr>is_complex = False, dims = d10\<rparr>)))))))))))
      | _ \<Rightarrow> Inl ValueError)"

definition demo_enh_lib :: enh_lib where
  "demo_enh_lib =
     \<lparr>th_load = (\<lambda>path. if path = ''beam.pt'' then Inr [2, 2, 3, 3] else Inl LibraryError),
      view_transposed = (\<lambda>w c. Inr ()),
      init_melfilter = (\<lambda>nb. Inr [80, nb])\<rparr>"

definition demo_enh_args :: enh_args where
  "demo_enh_args =
     \<lparr>num_bins = 3, weight = None, num_channels = 2, spatial_filters = 2,
      spectra_filters = 5, spectra_init = ''random'', batchnorm = True, apply_log = True\<rparr>"

definition demo_asr_lib :: "(unit, unit, unit, unit) att_asr_lib" where
  "demo_asr_lib =
     \<lparr>encoder_instance = (\<lambda>ty i p kw. Inr ()),
      att_instance = (\<lambda>ty p d kw. Inr ()),
      TorchDecoder = (\<lambda>p v att kw. Inr ())\<rparr>"

definition demo_asr_args :: "(unit, unit) att_asr_args" where
  \<comment> \<open>the defaults of \<open>AttASR.__init__\<close>, with the keyword dictionaries given\<close>
  "demo_asr_args =
     \<lparr>input_size = 80, vocab_size = 30, sos = - 1, eos = - 1, ctc = False,
      asr_transform = None, att_type = ''ctx'', att_kwargs = Some (),
      encoder_type = ''common'', encoder_proj = 256, encoder_kwargs = Some (),
      decoder_dim = 512, decoder_kwargs = Some ()\<rparr>"

definition demo_enh :: time_invariant_enh where
  \<comment> \<open>the module \<open>TimeInvariantEnh(num_bins=3, num_channels=2, spatial_filters=2,
     spectra_filters=5)\<close>\<close>
  "demo_enh =
     \<lparr>enh_conv =
        \<lparr>conv_real = \<lparr>in_channels = 3, out_channels = 6, kernel_size = 2, groups = 3\<rparr>,
         conv_imag = \<lparr>in_channels = 3, out_channels = 6, kernel_size = 2, groups = 3\<rparr>\<rparr>,
      enh_proj = \<lparr>weight_dims = [5, 3]\<rparr>, enh_norm = Some 2, enh_B = 2, enh_C = 2,
      enh_apply_log = True, enh_training = True\<rparr>"

section \<open>Single-precision arithmetic\<close>

text \<open>
  The tensors of the enhancement code hold IEEE 754 single-precision numbers. A finite
  number is rounded to the nearest one with 24 significant bits, ties to the even one,
  down to the exponent \<open>-126\<close> below which the spacing stays \<open>2\<^sup>-\<^sup>1\<^sup>4\<^sup>9\<close>; a rounded result
  above the largest finite number becomes an infinity. Addition, multiplication, division
  and the square root are the exact operation followed by this rounding. The sign of a zero
  is not kept: a zero divisor is taken as \<open>+0\<close>.
\<close>

definition rne :: "real \<Rightarrow> int" where
  \<comment> \<open>round to the nearest integer, ties to even\<close>
  "rne y =
     (let f = \<lfloor>y\<rfloor>; d = y - of_int f
      in if d < 1 / 2 then f else if 1 / 2 < d then f + 1 else if even f then f else f + 1)"

definition expo :: "real \<Rightarrow> int" where
  "expo x = max \<lfloor>log 2 \<bar>x\<bar>\<rfloor> (- 126)"

definition ulp :: "real \<Rightarrow> real" where
  \<comment> \<open>the spacing of single-precision numbers around \<open>x\<close>\<close>
  "ulp x = 2 powr (of_int (expo x) - 23)"

definition round32 :: "real \<Rightarrow> real" where
  "round32 x = (if x = 0 then 0 else ulp x * of_int (rne (x / ulp x)))"

definition max32 :: real where
  \<comment> \<open>the largest finite single-precision number\<close>
  "max32 = (2 - 1 / 2 ^ 23) * 2 ^ 127"

definition fl :: "real \<Rightarrow> pyfloat" where
  "fl x =
     (let r = round32 x
      in if max32 < r then PosInf else if r < - max32 then NegInf else Finite r)"

fun f32_neg :: "pyfloat \<Rightarrow> pyfloat" where
  "f32_neg (Finite x) = Finite (- x)"
| "f32_neg PosInf = NegInf"
| "f32_neg NegInf = PosInf"
| "f32_neg NaN = NaN"

fun f32_add :: "pyfloat \<Rightarrow> pyfloat \<Rightarrow> pyfloat" where
  "f32_add (Finite x) (Finite y) = fl (x + y)"
| "f32_add NaN _ = NaN"
| "f32_add _ NaN = NaN"
| "f32_add PosInf NegInf = NaN"
| "f32_add NegInf PosInf = NaN"
| "f32_add PosInf _ = PosInf"
| "f32_add NegInf _ = NegInf"
| "f32_add (Finite x) PosInf = PosInf"
| "f32_add (Finite x) NegInf = NegInf"

definition f32_sub :: "pyfloat \<Rightarrow> pyfloat \<Rightarrow> pyfloat" where
  "f32_sub a b = f32_add a (f32_neg b)"

definition inf_signed :: "bool \<Rightarrow> pyfloat" where
  "inf_signed positive = (if positive then PosInf else NegInf)"

fun f32_mul :: "pyfloat \<Rightarrow> pyfloat \<Rightarrow> pyfloat" where
  "f32_mul (Finite x) (Finite y) = fl (x * y)"
| "f32_mul NaN _ = NaN"
| "f32_mul _ NaN = NaN"
| "f32_mul PosInf (Finite y) = (if y = 0 then NaN else inf_signed (0 < y))"
| "f32_mul NegInf (Finite y) = (if y = 0 then NaN else inf_signed (y < 0))"
| "f32_mul (Finite x) PosInf = (if x = 0 then NaN else inf_signed (0 < x))"
| "f32_mul (Finite x) NegInf = (if x = 0 then NaN else inf_signed (x < 0))"
| "f32_mul PosInf PosInf = PosInf"
| "f32_mul NegInf NegInf = PosInf"
| "f32_mul PosInf NegInf = NegInf"
| "f32_mul NegInf PosInf = NegInf"

fun f32_div :: "pyfloat \<Rightarrow> pyfloat \<Rightarrow> pyfloat" where
  "f32_div (Finite x) (Finite y) =
     (if y = 0 then (if x = 0 then NaN else inf_signed (0 < x)) else fl (x / y))"
| "f32_div NaN _ = NaN"
| "f32_div _ NaN = NaN"
| "f32_div (Finite x) PosInf = Finite 0"
| "f32_div (Finite x) NegInf = Finite 0"
| "f32_div PosInf (Finite y) = inf_signed (0 \<le> y)"
| "f32_div NegInf (Finite y) = inf_signed (y < 0)"
| "f32_div PosInf PosInf = NaN"
| "f32_div PosInf NegInf = NaN"
| "f32_div NegInf PosInf = NaN"
| "f32_div NegInf NegInf = NaN"


fun th_log :: "pyfloat \<Rightarrow> pyfloat" where
  \<comment> \<open>\<open>th.log\<close> on one entry: minus infinity at zero, not a number below zero\<close>
  "th_log (Finite x) = (if x < 0 then NaN else if x = 0 then NegInf else fl (ln x))"
| "th_log PosInf = PosInf"
| "th_log NegInf = NaN"
| "th_log NaN = NaN"

fun clamp_min :: "pyfloat \<Rightarrow> real \<Rightarrow> pyfloat" where
  \<comment> \<open>\<open>th.clamp(x, min=lo)\<close> on one entry, \<open>lo\<close> a single-precision number: not-a-number
     passes through\<close>
  "clamp_min (Finite x) lo = Finite (max x lo)"
| "clamp_min PosInf lo = PosInf"
| "clamp_min NegInf lo = Finite lo"
| "clamp_min NaN lo = NaN"

fun at_least :: "real \<Rightarrow> pyfloat \<Rightarrow> bool" where
  \<comment> \<open>the entry is a number, finite or plus infinity, not below \<open>c\<close>\<close>
  "at_least c (Finite x) = (c \<le> x)"
| "at_least c PosInf = True"
| "at_least c _ = False"

definition EPSILON :: real where
  \<comment> \<open>\<open>th.finfo(th.float32).eps\<close>\<close>
  "EPSILON = 1 / 2 ^ 23"

section \<open>\<open>ComplexConvXd.forward\<close> on values\<close>

text \<open>
  The two real convolutions \<open>self.real\<close> and \<open>self.imag\<close> are layers of the tensor library
  and are parameters here; each may raise. Entries are real numbers. The elementwise
  operations are followed on tensors of one shape, which is what two layers built from the
  same arguments give on inputs of one shape; operands of different shapes are reported as
  a library error.
\<close>

datatype conv_input = ComplexTensor "real tensor" "real tensor" | OtherObject

datatype conv_output = ComplexResult "real tensor" "real tensor" | AbsResult "pyfloat tensor"

definition pointwise ::
  "(real \<Rightarrow> real \<Rightarrow> 'b) \<Rightarrow> real tensor \<Rightarrow> real tensor \<Rightarrow> error + 'b tensor" where
  "pointwise f a b =
     (if shape a = shape b
      then Inr \<lparr>shape = shape a, data = map2 f (data a) (data b)\<rparr>
      else Inl LibraryError)"

definition pow_half :: "real \<Rightarrow> pyfloat" where
  \<comment> \<open>\<open>x ** 0.5\<close>: not a number below zero\<close>
  "pow_half x = (if x < 0 then NaN else Finite (sqrt x))"

definition ComplexConvXd_forward ::
  "(real tensor \<Rightarrow> error + real tensor) \<Rightarrow> (real tensor \<Rightarrow> error + real tensor) \<Rightarrow>
   conv_input \<Rightarrow> bool \<Rightarrow> real \<Rightarrow> error + conv_output" where
  \<comment> \<open>\<open>ComplexConvXd.forward\<close>, with \<open>self.real\<close> and \<open>self.imag\<close> as the first two arguments\<close>
  "ComplexConvXd_forward conv_re conv_im x add_abs eps =
     (case x of
        OtherObject \<Rightarrow> Inl RuntimeError
      | ComplexTensor xr xi \<Rightarrow>
          and_then (conv_re xr) (\<lambda>rr.
          and_then (conv_im xi) (\<lambda>ii.
          and_then (pointwise (-) rr ii) (\<lambda>br.
          and_then (conv_re xi) (\<lambda>ri.
          and_then (conv_im xr) (\<lambda>ir.
          and_then (pointwise (+) ri ir) (\<lambda>bi.
          if \<not> add_abs then Inr (ComplexResult br bi)
          else and_then (pointwise (\<lambda>r i. pow_half (r\<^sup>2 + i\<^sup>2 + eps)) br bi)
                 (\<lambda>mag. Inr (AbsResult mag)))))))))"

definition demo_conv :: "real \<Rightarrow> real tensor \<Rightarrow> error + real tensor" where
  \<comment> \<open>a width-one convolution with a single weight \<open>w\<close>\<close>
  "demo_conv w t = Inr (t\<lparr>data := map ((*) w) (data t)\<rparr>)"

section \<open>Unsupervised enhancement: the log-pdf\<close>

text \<open>
  One slice \<open>(n, f)\<close> of the batch is followed: the mask \<open>msk\<close> has \<open>T\<close> entries, \<open>obs\<close> is a
  complex \<open>C x T\<close> matrix given by its rows; the source does the same on every slice at once.
  A complex tensor is a pair of single-precision tensors, its real and its imaginary part,
  so a complex entry is a pair of entries; products and quotients of a complex tensor with a
  real one act on both parts. The routines whose arithmetic is the library's own, the two
  complex \<open>einsum\<close> contractions, \<open>sum\<close>, \<open>th.symeig\<close> and the matrix inverse, are
  parameters; each of them may raise. \<open>eps\<close> is a single-precision number.
\<close>

type_synonym cfloat = "pyfloat \<times> pyfloat"

record cf_lib =
  cf_einsum_ij :: "cfloat list list \<Rightarrow> cfloat list list \<Rightarrow> error + cfloat list list"
  cf_einsum_t ::
    "cfloat list list \<Rightarrow> cfloat list list \<Rightarrow> cfloat list list \<Rightarrow> error + cfloat list"
  th_sum :: "pyfloat list \<Rightarrow> pyfloat"
  th_symeig :: "pyfloat list list \<Rightarrow> error + pyfloat list"
  ct_inverse :: "cfloat list list \<Rightarrow> error + cfloat list list"

definition ct_conj :: "cfloat list list \<Rightarrow> cfloat list list" where
  \<comment> \<open>\<open>x.conj()\<close>\<close>
  "ct_conj x = map (map (\<lambda>z. (fst z, f32_neg (snd z)))) x"

fun stride2 :: "'a list \<Rightarrow> 'a list" where
  \<comment> \<open>\<open>xs[::2]\<close>\<close>
  "stride2 [] = []"
| "stride2 [x] = [x]"
| "stride2 (x # y # xs) = x # stride2 xs"

fun cumprod_from :: "pyfloat \<Rightarrow> pyfloat list \<Rightarrow> pyfloat list" where
  "cumprod_from a [] = []"
| "cumprod_from a (x # xs) = f32_mul a x # cumprod_from (f32_mul a x) xs"

definition cumprod :: "pyfloat list \<Rightarrow> pyfloat list" where
  \<comment> \<open>\<open>th.cumprod\<close> along one axis\<close>
  "cumprod xs = (case xs of [] \<Rightarrow> [] | x # rest \<Rightarrow> x # cumprod_from x rest)"

definition hermitian_det :: "cf_lib \<Rightarrow> cfloat list list \<Rightarrow> real \<Rightarrow> error + pyfloat" where
  \<comment> \<open>\<open>hermitian_det\<close>; \<open>det[..., -1]\<close> raises on an empty axis\<close>
  "hermitian_det lib Bk eps =
     (let m = map (\<lambda>row. map fst row @ map (\<lambda>z. f32_neg (snd z)) row) Bk;
          n = map (\<lambda>row. map snd row @ map fst row) Bk;
          Rk = m @ n
      in and_then (th_symeig lib Rk) (\<lambda>ev.
           let det = cumprod (stride2 ev)
           in if det = [] then Inl IndexError else Inr (clamp_min (last det) eps)))"

definition estimate_covar ::
  "cf_lib \<Rightarrow> pyfloat list \<Rightarrow> cfloat list list \<Rightarrow> real \<Rightarrow> error + cfloat list list" where
  \<comment> \<open>\<open>estimate_covar\<close>\<close>
  "estimate_covar lib msk obs eps =
     (let C = length obs;
          masked = map (\<lambda>row. map2 (\<lambda>z w. (f32_mul (fst z) w, f32_mul (snd z) w)) row msk) obs
      in and_then (cf_einsum_ij lib masked (ct_conj obs)) (\<lambda>nominator.
           let denominator = clamp_min (th_sum lib msk) eps;
               Bk = map (map (\<lambda>z. (f32_div (f32_mul (fl (of_nat C)) (fst z)) denominator,
                                     f32_div (f32_mul (fl (of_nat C)) (snd z)) denominator)))
                        nominator
           in Inr (map (\<lambda>i. map (\<lambda>j.
                     (f32_div (f32_add (fst (Bk ! i ! j)) (fst (Bk ! j ! i))) (Finite 2),
                      f32_div (f32_add (snd (Bk ! i ! j)) (f32_neg (snd (Bk ! j ! i))))
                              (Finite 2)))
                   [0..<C]) [0..<C])))"

definition log_pdf_args ::
  "cf_lib \<Rightarrow> pyfloat list \<Rightarrow> cfloat list list \<Rightarrow> real \<Rightarrow> error + pyfloat list \<times> pyfloat" where
  \<comment> \<open>\<open>UnsuperEnhTask.log_pdf\<close> down to line 86: the tensors \<open>K\<close> and \<open>Dk\<close> handed to
     \<open>th.log\<close>\<close>
  "log_pdf_args lib msk obs eps =
     (let C = length obs
      in and_then (estimate_covar lib msk obs eps) (\<lambda>Bk.
           let Bk = map (\<lambda>i. map (\<lambda>j.
                      (f32_add (fst (Bk ! i ! j))
                               (f32_mul (Finite (if i = j then 1 else 0)) (Finite eps)),
                       snd (Bk ! i ! j)))
                    [0..<C]) [0..<C]
           in and_then (hermitian_det lib Bk eps) (\<lambda>Dk.
              and_then (ct_inverse lib Bk) (\<lambda>Bk_inv.
              and_then (cf_einsum_t lib (ct_conj obs) Bk_inv obs) (\<lambda>K.
              Inr (map (\<lambda>k. clamp_min (fst k) eps) K, Dk))))))"

definition log_pdf ::
  "cf_lib \<Rightarrow> pyfloat list \<Rightarrow> cfloat list list \<Rightarrow> real \<Rightarrow> error + pyfloat list" where
  \<comment> \<open>\<open>UnsuperEnhTask.log_pdf\<close>: \<open>-C * th.log(K) - th.log(Dk[..., None])\<close>\<close>
  "log_pdf lib msk obs eps =
     and_then (log_pdf_args lib msk obs eps) (\<lambda>(K, Dk).
       Inr (map (\<lambda>k. f32_sub (f32_mul (fl (- real (length obs))) (th_log k)) (th_log Dk)) K))"

fun not_positive :: "pyfloat \<Rightarrow> bool" where
  \<comment> \<open>the entry is zero or a negative number\<close>
  "not_positive (Finite x) = (x \<le> 0)"
| "not_positive NegInf = True"
| "not_positive _ = False"

definition c_mul :: "cfloat \<Rightarrow> cfloat \<Rightarrow> cfloat" where
  \<comment> \<open>the product of two complex entries\<close>
  "c_mul x y =
     (f32_sub (f32_mul (fst x) (fst y)) (f32_mul (snd x) (snd y)),
      f32_add (f32_mul (fst x) (snd y)) (f32_mul (snd x) (fst y)))"

definition c_recip :: "cfloat \<Rightarrow> cfloat" where
  \<comment> \<open>the reciprocal of a complex entry\<close>
  "c_recip z =
     (let n = f32_add (f32_mul (fst z) (fst z)) (f32_mul (snd z) (snd z))
      in (f32_div (fst z) n, f32_div (f32_neg (snd z)) n))"

definition demo_cf_lib :: cf_lib where
  \<comment> \<open>the library routines written out for one channel and one frame\<close>
  "demo_cf_lib =
     \<lparr>cf_einsum_ij = (\<lambda>a b. case (a, b) of
                               ([[x]], [[y]]) \<Rightarrow> Inr [[c_mul x y]]
                             | _ \<Rightarrow> Inl LibraryError),
      cf_einsum_t = (\<lambda>a m c. case (a, m, c) of
                               ([[x]], [[y]], [[z]]) \<Rightarrow> Inr [c_mul (c_mul x y) z]
                             | _ \<Rightarrow> Inl LibraryError),
      th_sum = (\<lambda>xs. case xs of [m] \<Rightarrow> m | _ \<Rightarrow> NaN),
      th_symeig = (\<lambda>R. Inr (map (\<lambda>i. R ! i ! i) [0..<length R])),
      ct_inverse = (\<lambda>B. case B of [[z]] \<Rightarrow> Inr [[c_recip z]] | _ \<Rightarrow> Inl LibraryError)\<rparr>"

section \<open>\<open>Phasen\<close>: the normalised phase\<close>









section \<open>\<open>ApsMultiheadAttention\<close>\<close>

text \<open>
  The attention module is followed call by call. Tensors are values of a type \<open>'t\<close> of the
  tensor library, key-padding masks of a type \<open>'b\<close>; every operation on them is a routine
  of the library and a parameter here, fallible where the library checks its operands.
  The reference computation of \<open>torch_forward\<close> is the library's
  \<open>multi_head_attention_forward\<close>, a parameter as well.
\<close>

record ('t, 'b) mha_args =
  arg_query :: 't
  arg_key :: 't
  arg_value :: 't
  arg_embed_dim_to_check :: nat
  arg_num_heads :: nat
  arg_in_proj_weight :: 't
  arg_in_proj_bias :: "'t option"
  arg_bias_k :: "'t option"
  arg_bias_v :: "'t option"
  arg_add_zero_attn :: bool
  arg_dropout_p :: real
  arg_out_proj_weight :: 't
  arg_out_proj_bias :: 't
  arg_training :: bool
  arg_key_padding_mask :: "'b option"
  arg_need_weights :: bool
  arg_attn_mask :: "'t option"

record ('t, 'b) torch_lib =
  xavier_uniform :: "nat \<Rightarrow> nat \<Rightarrow> 't"
  zeros_init :: "nat \<Rightarrow> 't"
  new_linear :: "nat \<Rightarrow> nat \<Rightarrow> 't \<times> 't"
  rows :: "'t \<Rightarrow> nat \<Rightarrow> nat \<Rightarrow> 't"
  linear_fn :: "'t \<Rightarrow> 't \<Rightarrow> 't \<Rightarrow> error + 't"
  size0 :: "'t \<Rightarrow> nat"
  shape_fn :: "'t \<Rightarrow> nat list"
  view_fn :: "'t \<Rightarrow> int list \<Rightarrow> error + 't"
  einsum_fn :: "string \<Rightarrow> 't \<Rightarrow> 't \<Rightarrow> error + 't"
  div_fn :: "'t \<Rightarrow> real \<Rightarrow> 't"
  masked_fill_fn :: "'t \<Rightarrow> 'b \<Rightarrow> error + 't"
  iadd_fn :: "'t \<Rightarrow> 't \<Rightarrow> error + 't"
  softmax_fn :: "'t \<Rightarrow> 't"
  dropout_fn :: "real \<Rightarrow> bool \<Rightarrow> 't \<Rightarrow> 't"
  mean_fn :: "'t \<Rightarrow> int \<Rightarrow> 't"
  transpose_fn :: "'t \<Rightarrow> nat \<Rightarrow> nat \<Rightarrow> 't"
  multi_head_attention_forward :: "('t, 'b) mha_args \<Rightarrow> error + 't \<times> 't"

record 't aps_mha =
  embed_dim :: nat
  num_heads :: nat
  head_dim :: nat
  in_proj_weight :: 't
  in_proj_bias :: "'t option"
  out_proj_weight :: 't
  out_proj_bias :: 't
  dropout_p :: real
  mha_training :: bool

definition ApsMultiheadAttention_init ::
  "('t, 'b) torch_lib \<Rightarrow> nat \<Rightarrow> nat \<Rightarrow> real \<Rightarrow> bool \<Rightarrow> error + 't aps_mha" where
  \<comment> \<open>\<open>ApsMultiheadAttention.__init__(embed_dim, num_heads, dropout, bias)\<close>; without
     \<open>bias\<close> the input bias is registered as \<open>None\<close>\<close>
  "ApsMultiheadAttention_init lib E H p bias =
     (if H = 0 then Inl ZeroDivisionError
      else if (E div H) * H \<noteq> E then Inl AssertionError
      else if p < 0 \<or> 1 < p then Inl ValueError
      else Inr \<lparr>embed_dim = E, num_heads = H, head_dim = E div H,
                in_proj_weight = xavier_uniform lib (3 * E) E,
                in_proj_bias = (if bias then Some (zeros_init lib (3 * E)) else None),
                out_proj_weight = fst (new_linear lib E E),
                out_proj_bias = snd (new_linear lib E E),
                dropout_p = p, mha_training = True\<rparr>)"

fun map_err :: "('a \<Rightarrow> error + 'b) \<Rightarrow> 'a list \<Rightarrow> error + 'b list" where
  \<comment> \<open>a list comprehension whose body may raise: the first exception ends it\<close>
  "map_err f [] = Inr []"
| "map_err f (x # xs) =
     and_then (f x) (\<lambda>y. and_then (map_err f xs) (\<lambda>ys. Inr (y # ys)))"

definition proj :: "('t, 'b) torch_lib \<Rightarrow> 't aps_mha \<Rightarrow> nat \<Rightarrow> 't \<Rightarrow> error + 't" where
  \<comment> \<open>\<open>_proj\<close> of \<open>inp_proj\<close>: indexing a bias that is \<open>None\<close> raises \<open>TypeError\<close>\<close>
  "proj lib m base mat =
     (let lo = base * embed_dim m;
          hi = (base + 1) * embed_dim m;
          w = rows lib (in_proj_weight m) lo hi
      in case in_proj_bias m of
           None \<Rightarrow> Inl TypeError
         | Some b \<Rightarrow>
             and_then (linear_fn lib mat w (rows lib b lo hi)) (\<lambda>mat.
               view_fn lib mat [int (size0 lib mat), - 1, int (num_heads m), int (head_dim m)]))"

definition inp_proj :: "('t, 'b) torch_lib \<Rightarrow> 't aps_mha \<Rightarrow> 't list \<Rightarrow> error + 't list" where
  \<comment> \<open>\<open>ApsMultiheadAttention.inp_proj\<close>\<close>
  "inp_proj lib m inps = map_err (\<lambda>(i, inp). proj lib m i inp) (zip [0..<length inps] inps)"

definition context_weight ::
  "('t, 'b) torch_lib \<Rightarrow> 't aps_mha \<Rightarrow> 't \<Rightarrow> 't \<Rightarrow> 'b option \<Rightarrow> 't option \<Rightarrow> error + 't \<times> 't"
  where
  \<comment> \<open>\<open>ApsMultiheadAttention.context_weight\<close>: scale, key-padding mask, additive mask,
     softmax, dropout, contraction with the values; \<open>attn\<close> is the source's \<open>weight\<close>\<close>
  "context_weight lib m logit v key_padding_mask attn_mask =
     (let logit = div_fn lib logit (sqrt (real (head_dim m)))
      in and_then (case key_padding_mask of
                     None \<Rightarrow> Inr logit
                   | Some k \<Rightarrow> masked_fill_fn lib logit k) (\<lambda>logit.
         and_then (case attn_mask of
                     None \<Rightarrow> Inr logit
                   | Some a \<Rightarrow> iadd_fn lib logit a) (\<lambda>logit.
           let attn = dropout_fn lib (dropout_p m) (mha_training m) (softmax_fn lib logit)
           in and_then (einsum_fn lib ''lnhs,snhd->lnhd'' attn v) (\<lambda>context.
                Inr (context, attn)))))"

definition wrap_out ::
  "('t, 'b) torch_lib \<Rightarrow> 't aps_mha \<Rightarrow> 't \<Rightarrow> 't \<Rightarrow> error + 't \<times> 't" where
  \<comment> \<open>\<open>ApsMultiheadAttention.wrap_out\<close>\<close>
  "wrap_out lib m context attn =
     (case shape_fn lib context of
        [L, _, _, _] \<Rightarrow>
          and_then (view_fn lib context [int L, - 1, int (embed_dim m)]) (\<lambda>context.
          and_then (linear_fn lib context (out_proj_weight m) (out_proj_bias m)) (\<lambda>context.
            Inr (context, transpose_fn lib (mean_fn lib attn (- 2)) 0 1)))
      | _ \<Rightarrow> Inl ValueError)"

definition ApsMultiheadAttention_forward ::
  "('t, 'b) torch_lib \<Rightarrow> 't aps_mha \<Rightarrow> 't \<Rightarrow> 't \<Rightarrow> 't \<Rightarrow> 'b option \<Rightarrow> 't option \<Rightarrow>
   error + 't \<times> 't" where
  \<comment> \<open>\<open>ApsMultiheadAttention.forward\<close>\<close>
  "ApsMultiheadAttention_forward lib m q k v key_padding_mask attn_mask =
     and_then (inp_proj lib m [q, k, v]) (\<lambda>ps.
       case ps of
         [q, k, v] \<Rightarrow>
           and_then (einsum_fn lib ''lnhd,snhd->lnhs'' q k) (\<lambda>logit.
           and_then (context_weight lib m logit v key_padding_mask attn_mask)
             (\<lambda>(context, attn). wrap_out lib m context attn))
       | _ \<Rightarrow> Inl ValueError)"

definition torch_forward ::
  "('t, 'b) torch_lib \<Rightarrow> 't aps_mha \<Rightarrow> 't \<Rightarrow> 't \<Rightarrow> 't \<Rightarrow> 'b option \<Rightarrow> 't option \<Rightarrow>
   error + 't \<times> 't" where
  \<comment> \<open>\<open>ApsMultiheadAttention.torch_forward\<close>: the parameters are handed to the library as
     they are\<close>
  "torch_forward lib m q k v key_padding_mask attn_mask =
     multi_head_attention_forward lib
       \<lparr>arg_query = q, arg_key = k, arg_value = v,
        arg_embed_dim_to_check = embed_dim m, arg_num_heads = num_heads m,
        arg_in_proj_weight = in_proj_weight m, arg_in_proj_bias = in_proj_bias m,
        arg_bias_k = None, arg_bias_v = None, arg_add_zero_attn = False,
        arg_dropout_p = dropout_p m,
        arg_out_proj_weight = out_proj_weight m, arg_out_proj_bias = out_proj_bias m,
        arg_training = mha_training m, arg_key_padding_mask = key_padding_mask,
        arg_need_weights = True, arg_attn_mask = attn_mask\<rparr>"

section \<open>Sequencing of fallible steps\<close>

lemma and_then_Inl [simp]: "and_then (Inl e) f = Inl e"
  by (simp add: and_then_def)

lemma and_then_Inr [simp]: "and_then (Inr x) f = f x"
  by (simp add: and_then_def)

lemma isl_and_thenI: "(\<And>x. r = Inr x \<Longrightarrow> isl (f x)) \<Longrightarrow> isl (and_then r f)"
  by (cases r) simp_all

lemma isl_and_then_first: "isl r \<Longrightarrow> isl (and_then r f)"
  by (cases r) simp_all
section \<open>Properties of the relative-position shift\<close>

text \<open>
  Claim C3. \<open>XlMultiheadAttention._rel_shift\<close> is documented to return a tensor of the shape
  \<open>L x N x H x S\<close> of its argument. It does not: the slice \<open>[:1]\<close> keeps one row of the
  \<open>S + 1\<close> rows of the re-viewed tensor, so the result has the shape \<open>L x N x H x 1\<close>
  whatever \<open>S\<close> is. On a \<open>2 x 1 x 1 x 3\<close> input with the entries 1 to 6 the result holds the
  two entries 1 and 2, both taken from the row of the first query position.
\<close>

theorem rel_shift_keeps_one_key_position:
  "map_sum id shape (rel_shift \<lparr>shape = [L, N, H, S], data = xs\<rparr>) = Inr [L, N, H, 1] \<and>
   rel_shift \<lparr>shape = [2, 1, 1, 3], data = [1, 2, 3, 4, 5, 6]\<rparr> =
     Inr \<lparr>shape = [2, 1, 1, 1], data = [1, 2]\<rparr>"
proof -
  have "map_sum id shape (rel_shift \<lparr>shape = [L, N, H, S], data = xs\<rparr>) = Inr [L, N, H, 1]"
    by (simp add: rel_shift_def zeros_def cat_last_def and_then_def einsum_lnhs_lsnh_def
        view_def slice_first_def einsum_slnh_lnhs_def algebra_simps)
  moreover have "rel_shift \<lparr>shape = [2, 1, 1, 3], data = [1, 2, 3, 4, 5, 6]\<rparr> =
     Inr \<lparr>shape = [2, 1, 1, 1], data = [1, 2]\<rparr>"
    by (simp add: rel_shift_def zeros_def cat_last_def and_then_def einsum_lnhs_lsnh_def
        view_def slice_first_def einsum_slnh_lnhs_def at4_def upt_rec)
  ultimately show ?thesis by simp
qed
section \<open>Properties of the training step\<close>

lemma run_fields [simp]:
  "task (run c f tr) = task tr" "distributed (run c f tr) = distributed tr"
  "cuda_devices (run c f tr) = cuda_devices tr" "ssr (run c f tr) = ssr tr"
  "clip_gradient (run c f tr) = clip_gradient tr"
  "gaussian_noise_std (run c f tr) = gaussian_noise_std tr"
  "calls (run c f tr) = calls tr @ [c]"
  "memory (run c f tr) = f (memory tr)"
  by (simp_all add: run_def Let_def memory_def)

lemma run_params [simp]: "params (run c f tr) = fst (f (memory tr))"
  by (simp add: run_def Let_def)

lemma fst_memory [simp]: "fst (memory tr) = params tr"
  by (simp add: memory_def)

lemma keepsD: "keeps_params f \<Longrightarrow> fst (f m) = fst m"
  unfolding keeps_params_def by blast

lemma forward_pass_params:
  assumes "keeps_params (zero_grad env)" "\<forall>e r. keeps_params (\<lambda>m. snd (task_forward env e r m))"
  shows "params (snd (forward_pass env egs tr)) = params tr"
proof -
  have "fst (snd (task_forward env egs r m)) = fst m" for r m
    using assms(2) by (cases m) (simp add: keeps_params_def)
  then show ?thesis
    by (simp add: forward_pass_def Let_def keepsD[OF assms(1)])
qed

lemma forward_pass_calls:
  "calls (snd (forward_pass env egs tr)) = calls tr @ [ZeroGrad, TaskForward]"
  by (simp add: forward_pass_def Let_def)

lemma forward_pass_config:
  "clip_gradient (snd (forward_pass env egs tr)) = clip_gradient tr"
  "gaussian_noise_std (snd (forward_pass env egs tr)) = gaussian_noise_std tr"
  by (simp_all add: forward_pass_def Let_def)

lemma backward_clip_params:
  assumes "\<forall>st. keeps_params (scale_loss_backward env st)"
    "\<forall>c. keeps_params (\<lambda>m. snd (clip_grad_norm env c m))"
  shows "params (snd (backward_clip env stats tr)) = params tr"
proof -
  have a: "fst (snd (clip_grad_norm env c m)) = fst m" for c m
    using assms(2) by (cases m) (simp add: keeps_params_def)
  have b: "keeps_params (scale_loss_backward env stats)" using assms(1) by simp
  show ?thesis
    by (simp add: backward_clip_def Let_def keepsD[OF b] a split: option.splits)
qed

lemma backward_clip_calls:
  "\<exists>cs. calls (snd (backward_clip env stats tr)) = calls tr @ ScaleLossBackward # cs \<and> OptimizerStep \<notin> set cs"
  by (simp add: backward_clip_def Let_def split: option.splits)

lemma backward_clip_config:
  "gaussian_noise_std (snd (backward_clip env stats tr)) = gaussian_noise_std tr"
  by (simp add: backward_clip_def Let_def split: option.splits)

text \<open>
  Claim C2. Suppose that zeroing the gradients, the forward pass, the scaled backward pass,
  \<open>clip_grad_norm_\<close> and the reporter's log write no model parameter. If the loss of the
  forward pass is not finite, \<open>train_one_step\<close> returns \<open>False\<close>, has not called
  \<open>optimizer.step\<close>, and every parameter has its value from before the step. The same holds
  when the loss is finite, gradient clipping is enabled and the clipped norm is not finite.
\<close>

theorem train_one_step_skips_non_finite:
  assumes "keeps_params (zero_grad env)"
    and "\<forall>e r. keeps_params (\<lambda>m. snd (task_forward env e r m))"
    and "\<forall>st. keeps_params (scale_loss_backward env st)"
    and "\<forall>c. keeps_params (\<lambda>m. snd (clip_grad_norm env c m))"
    and "\<forall>x. keeps_params (reporter_log env x)"
  shows "(fst (forward_pass env egs tr) ''loss'' = Some loss \<and> \<not> isfinite loss
            \<longrightarrow> step_skipped env egs tr) \<and>
         (fst (forward_pass env egs tr) ''loss'' = Some loss \<and> isfinite loss \<and>
          is_true (clip_gradient tr) \<and>
          \<not> isfinite (fst (backward_clip env (fst (forward_pass env egs tr))
                                         (snd (forward_pass env egs tr))))
            \<longrightarrow> step_skipped env egs tr)"
proof -
  obtain stats tr1 where fp: "forward_pass env egs tr = (stats, tr1)"
    by (cases "forward_pass env egs tr")
  obtain gnorm tr2 where bc: "backward_clip env stats tr1 = (gnorm, tr2)"
    by (cases "backward_clip env stats tr1")
  have p1: "params tr1 = params tr"
    using forward_pass_params[OF assms(1,2), of egs tr] fp by simp
  have c1: "calls tr1 = calls tr @ [ZeroGrad, TaskForward]"
    using forward_pass_calls[of env egs tr] fp by simp
  have p2: "params tr2 = params tr1"
    using backward_clip_params[OF assms(3,4), of stats tr1] bc by simp
  obtain cs where c2: "calls tr2 = calls tr1 @ ScaleLossBackward # cs" "OptimizerStep \<notin> set cs"
    using backward_clip_calls[of env stats tr1] bc by auto
  have lg: "keeps_params (reporter_log env x)" for x using assms(5) by simp
  have A: "stats ''loss'' = Some loss \<Longrightarrow> \<not> isfinite loss \<Longrightarrow> step_skipped env egs tr"
    by (simp add: step_skipped_def train_one_step_def fp keepsD[OF lg] p1 new_calls_def c1)
  have B: "stats ''loss'' = Some loss \<Longrightarrow> isfinite loss \<Longrightarrow> \<not> isfinite gnorm
             \<Longrightarrow> step_skipped env egs tr"
    by (simp add: step_skipped_def train_one_step_def fp bc keepsD[OF lg] p1 p2
        new_calls_def c1 c2)
  show ?thesis using A B by (simp add: fp bc)
qed


lemma demo_frames:
  "keeps_params (zero_grad demo_env)"
  "\<forall>e r. keeps_params (\<lambda>m. snd (task_forward demo_env e r m))"
  "\<forall>st. keeps_params (scale_loss_backward demo_env st)"
  "\<forall>c. keeps_params (\<lambda>m. snd (clip_grad_norm demo_env c m))"
  "\<forall>x. keeps_params (reporter_log demo_env x)"
  "\<forall>st. keeps_params (reporter_update demo_env st)"
  "keeps_params (lr_scheduler_step demo_env)"
  by (simp_all add: keeps_params_def demo_env_def)

lemmas demo_simps = demo_env_def demo_trainer_def forward_pass_def backward_clip_def
  after_optimizer_step_def train_one_step_def run_def memory_def Let_def new_calls_def
  state_at_optimizer_step_def

theorem train_one_step_skips_non_finite_witness:
  "fst (forward_pass demo_env False demo_trainer) ''loss'' = Some NaN \<and> \<not> isfinite NaN \<and>
   step_skipped demo_env False demo_trainer \<and>
   fst (forward_pass demo_env True (demo_trainer\<lparr>params := - 1, clip_gradient := Some (Finite 5)\<rparr>))
     ''loss'' = Some (Finite 3) \<and> isfinite (Finite 3) \<and>
   is_true (clip_gradient (demo_trainer\<lparr>params := - 1, clip_gradient := Some (Finite 5)\<rparr>)) \<and>
   step_skipped demo_env True (demo_trainer\<lparr>params := - 1, clip_gradient := Some (Finite 5)\<rparr>)"
proof -
  let ?tr = "demo_trainer\<lparr>params := - 1, clip_gradient := Some (Finite 5)\<rparr>"
  have a: "fst (forward_pass demo_env False demo_trainer) ''loss'' = Some NaN"
    by (simp add: demo_simps)
  have b: "fst (forward_pass demo_env True ?tr) ''loss'' = Some (Finite 3)"
    by (simp add: demo_simps)
  have c: "\<not> isfinite (fst (backward_clip demo_env (fst (forward_pass demo_env True ?tr))
                                         (snd (forward_pass demo_env True ?tr))))"
    by (simp add: demo_simps)
  have d: "is_true (clip_gradient ?tr)" by (simp add: demo_trainer_def)
  from train_one_step_skips_non_finite[OF demo_frames(1-5), of False demo_trainer NaN] a
  have e: "step_skipped demo_env False demo_trainer" by simp
  from train_one_step_skips_non_finite[OF demo_frames(1-5), of True ?tr "Finite 3"] b c d
  have f: "step_skipped demo_env True ?tr" by simp
  show ?thesis using a b d e f by simp
qed

lemma after_optimizer_step_params:
  assumes "\<forall>st. keeps_params (reporter_update env st)" "keeps_params (lr_scheduler_step env)"
  shows "params (after_optimizer_step env stats gnorm tr) =
         (if is_true (gaussian_noise_std tr)
          then fst (add_gaussian_noise env (the (gaussian_noise_std tr)) (memory tr))
          else params tr)"
proof -
  have u: "keeps_params (reporter_update env st)" for st using assms(1) by simp
  show ?thesis
    by (simp add: after_optimizer_step_def Let_def keepsD[OF assms(2)] keepsD[OF u]
        split: option.splits)
qed

lemma after_optimizer_step_calls:
  "calls (after_optimizer_step env stats gnorm tr) =
     calls tr @ (if is_true (gaussian_noise_std tr)
                 then [AddGaussianNoise (the (gaussian_noise_std tr))] else [])
              @ [ReporterUpdate, LrSchedulerStep]"
  by (simp add: after_optimizer_step_def Let_def split: option.splits)

text \<open>
  Claim C5, as amended. Suppose the reporter's update and the scheduler's step write no model
  parameter. In a step that returns \<open>True\<close>, after \<open>optimizer.step\<close> has returned the
  trainer calls \<open>add_gaussian_noise\<close> on the task exactly when \<open>gaussian_noise_std\<close> is set
  (neither \<open>None\<close> nor zero), then the reporter's update and the scheduler's step, and nothing
  else. The parameters it returns with are those the optimizer step left when
  \<open>gaussian_noise_std\<close> is not set, and those \<open>add_gaussian_noise\<close> made of them when it is.
\<close>

theorem train_one_step_after_optimizer_step:
  assumes "\<forall>st. keeps_params (reporter_update env st)"
    and "keeps_params (lr_scheduler_step env)"
    and "train_one_step env egs tr = Inr (True, tr')"
  shows "params tr' =
           (if is_true (gaussian_noise_std tr)
            then fst (add_gaussian_noise env (the (gaussian_noise_std tr))
                        (memory (state_at_optimizer_step env egs tr)))
            else params (state_at_optimizer_step env egs tr)) \<and>
         new_calls (state_at_optimizer_step env egs tr) tr' =
           (if is_true (gaussian_noise_std tr)
            then [AddGaussianNoise (the (gaussian_noise_std tr))] else [])
           @ [ReporterUpdate, LrSchedulerStep]"
proof -
  obtain stats tr1 where fp: "forward_pass env egs tr = (stats, tr1)"
    by (cases "forward_pass env egs tr")
  obtain gnorm tr2 where bc: "backward_clip env stats tr1 = (gnorm, tr2)"
    by (cases "backward_clip env stats tr1")
  let ?s = "run OptimizerStep (optimizer_step env) tr2"
  have s: "state_at_optimizer_step env egs tr = ?s"
    by (simp add: state_at_optimizer_step_def fp bc)
  have g: "gaussian_noise_std ?s = gaussian_noise_std tr"
    using forward_pass_config(2)[of env egs tr] backward_clip_config[of env stats tr1]
    by (simp add: fp bc)
  have t: "tr' = after_optimizer_step env stats gnorm ?s"
    using assms(3) by (simp add: train_one_step_def fp bc split: option.splits if_splits)
  show ?thesis
    unfolding s t new_calls_def
    by (simp only: after_optimizer_step_params[OF assms(1,2)] after_optimizer_step_calls g)
       simp
qed

text \<open>
  Claim C5 as stated fails: with \<open>gaussian_noise_std = 0.5\<close> the step below succeeds, the
  optimizer step leaves the parameter at 4, and \<open>add_gaussian_noise\<close>, called after it, moves
  the parameter to 4.5 before \<open>train_one_step\<close> returns \<open>True\<close>.
\<close>

theorem noise_after_optimizer_step:
  "train_one_step demo_env True (demo_trainer\<lparr>gaussian_noise_std := Some (Finite (1/2))\<rparr>) =
     Inr (True, demo_trainer\<lparr>params := 9 / 2, world := 1,
                 gaussian_noise_std := Some (Finite (1/2)),
                 calls := [ZeroGrad, TaskForward, ScaleLossBackward, OptimizerStep,
                           AddGaussianNoise (Finite (1/2)), ReporterUpdate, LrSchedulerStep]\<rparr>) \<and>
   params (state_at_optimizer_step demo_env True
             (demo_trainer\<lparr>gaussian_noise_std := Some (Finite (1/2))\<rparr>)) = 4"
  by (simp add: demo_simps)

theorem train_one_step_after_optimizer_step_witness:
  "train_one_step demo_env True demo_trainer =
     Inr (True, demo_trainer\<lparr>params := 4, world := 1,
                 calls := [ZeroGrad, TaskForward, ScaleLossBackward, OptimizerStep,
                           ReporterUpdate, LrSchedulerStep]\<rparr>) \<and>
   params (state_at_optimizer_step demo_env True demo_trainer) = 4 \<and>
   new_calls (state_at_optimizer_step demo_env True demo_trainer)
     (demo_trainer\<lparr>params := 4, world := 1,
                 calls := [ZeroGrad, TaskForward, ScaleLossBackward, OptimizerStep,
                           ReporterUpdate, LrSchedulerStep]\<rparr>) = [ReporterUpdate, LrSchedulerStep]"
proof -
  let ?tr' = "demo_trainer\<lparr>params := 4, world := 1,
                 calls := [ZeroGrad, TaskForward, ScaleLossBackward, OptimizerStep,
                           ReporterUpdate, LrSchedulerStep]\<rparr>"
  have r: "train_one_step demo_env True demo_trainer = Inr (True, ?tr')"
    by (simp add: demo_simps)
  have n: "\<not> is_true (gaussian_noise_std demo_trainer)" by (simp add: demo_trainer_def)
  from train_one_step_after_optimizer_step[OF demo_frames(6,7) r] n
  have "params ?tr' = params (state_at_optimizer_step demo_env True demo_trainer) \<and>
        new_calls (state_at_optimizer_step demo_env True demo_trainer) ?tr' =
          [ReporterUpdate, LrSchedulerStep]" by simp
  then show ?thesis using r by (simp add: demo_trainer_def)
qed

text \<open>
  Claim C6. For a trainer as \<open>setup_distributed\<close> leaves it (the task is wrapped exactly when
  \<open>self.distributed\<close> is set) and every epoch number, \<open>checkpoint_states\<close> returns a
  dictionary of exactly five entries under five different keys: the epoch, the amp state,
  the model's state, the optimizer's state and the scheduler's state.
\<close>

theorem checkpoint_states_five_entries:
  assumes "task_attached tr"
  shows "checkpoint_states env tr epoch =
           Inr [(''epoch'', Epoch epoch),
                (''amp_state_dict'', StateDict (amp_state_dict env (memory tr))),
                (''model_state_dict'', StateDict (nnet_state_dict env (memory tr))),
                (''optim_state_dict'', StateDict (optimizer_state_dict env (memory tr))),
                (''lr_scheduler_dict'', StateDict (lr_scheduler_state_dict env (memory tr)))] \<and>
         map_sum id length (checkpoint_states env tr epoch) = Inr 5 \<and>
         map_sum id (\<lambda>d. distinct (map fst d)) (checkpoint_states env tr epoch) = Inr True"
  using assms
  by (simp add: checkpoint_states_def model_state_dict_def task_attached_def and_then_def)

lemma setup_distributed_attached:
  "task tr = PlainTask \<Longrightarrow> task_attached (setup_distributed init tr)"
  by (simp add: setup_distributed_def task_attached_def Let_def)

theorem checkpoint_states_five_entries_witness:
  "task_attached (setup_distributed id (demo_trainer\<lparr>cuda_devices := 2\<rparr>)) \<and>
   checkpoint_states demo_env (setup_distributed id (demo_trainer\<lparr>cuda_devices := 2\<rparr>)) 3 =
     Inr [(''epoch'', Epoch 3), (''amp_state_dict'', StateDict 0),
          (''model_state_dict'', StateDict 5), (''optim_state_dict'', StateDict 7),
          (''lr_scheduler_dict'', StateDict 1)]"
proof -
  let ?tr = "setup_distributed id (demo_trainer\<lparr>cuda_devices := 2\<rparr>)"
  have a: "task_attached ?tr"
    by (simp add: setup_distributed_def task_attached_def Let_def demo_trainer_def)
  have m: "memory ?tr = (5, 7)"
    by (simp add: setup_distributed_def Let_def demo_trainer_def memory_def)
  show ?thesis
    using a checkpoint_states_five_entries[OF a, of demo_env 3]
    by (simp add: m demo_env_def)
qed
section \<open>Properties of construction-time validation\<close>

lemma AttASR_init_raises: "sos a < 0 \<or> eos a < 0 \<Longrightarrow> isl (AttASR_init lib a)"
  unfolding AttASR_init_def
  by (intro isl_and_thenI) auto

lemma load_weight_raises:
  assumes "weight a = Some path" "path \<noteq> []" "th_load lib path = Inr w"
    "shape_at w 1 \<noteq> Inr (spatial_filters a) \<or> shape_at w 2 \<noteq> Inr (num_channels a)"
  shows "isl (load_weight lib a)"
proof (cases "shape_at w 1")
  case (Inl e)
  then show ?thesis using assms by (simp add: load_weight_def)
next
  case w1: (Inr w1)
  show ?thesis
  proof (cases "shape_at w 2")
    case (Inl e)
    then show ?thesis using assms w1 by (simp add: load_weight_def)
  next
    case (Inr w2)
    then show ?thesis using assms w1 by (auto simp add: load_weight_def)
  qed
qed

lemma TimeInvariantEnh_init_weight_raises:
  assumes "isl (load_weight lib a)"
  shows "isl (TimeInvariantEnh_init lib a)"
proof (cases "spectra_init a \<notin> set [''mel'', ''random'']")
  case True
  then show ?thesis by (simp add: TimeInvariantEnh_init_def)
next
  case False
  have "isl (and_then (ComplexConv1d (num_bins a) (spatial_filters a * num_bins a)
                    (num_channels a) (num_bins a)) (\<lambda>cv. and_then (load_weight lib a) (g cv)))"
    for g :: "complex_conv \<Rightarrow> unit \<Rightarrow> error + time_invariant_enh"
    by (intro isl_and_thenI isl_and_then_first assms)
  with False show ?thesis unfolding TimeInvariantEnh_init_def by simp
qed

text \<open>
  Claim C7. Construction fails at once on invalid arguments and hands back no model:
  \<open>AttASR.__init__\<close> raises whenever \<open>sos\<close> or \<open>eos\<close> is negative;
  \<open>TimeInvariantEnh.__init__\<close> raises \<open>ValueError\<close> whenever \<open>spectra_init\<close> is neither
  \<open>mel\<close> nor \<open>random\<close>, and raises whenever a weight file is given and the tensor loaded
  from it differs from \<open>spatial_filters\<close> at axis 1 or from \<open>num_channels\<close> at axis 2;
  \<open>_get_activation_fn\<close> raises \<open>RuntimeError\<close> for every name other than \<open>relu\<close> and
  \<open>gelu\<close>.
\<close>

theorem construction_validation_raises:
  "(sos a < 0 \<or> eos a < 0 \<longrightarrow> isl (AttASR_init lib a)) \<and>
   (spectra_init b \<noteq> ''mel'' \<and> spectra_init b \<noteq> ''random''
      \<longrightarrow> TimeInvariantEnh_init elib b = Inl ValueError) \<and>
   (weight b = Some path \<and> path \<noteq> [] \<and> th_load elib path = Inr w \<and>
    (shape_at w 1 \<noteq> Inr (spatial_filters b) \<or> shape_at w 2 \<noteq> Inr (num_channels b))
      \<longrightarrow> isl (TimeInvariantEnh_init elib b)) \<and>
   (activation \<noteq> ''relu'' \<and> activation \<noteq> ''gelu''
      \<longrightarrow> get_activation_fn activation = Inl RuntimeError)"
proof -
  have 1: "sos a < 0 \<or> eos a < 0 \<longrightarrow> isl (AttASR_init lib a)"
    using AttASR_init_raises by blast
  have 2: "spectra_init b \<noteq> ''mel'' \<and> spectra_init b \<noteq> ''random''
      \<longrightarrow> TimeInvariantEnh_init elib b = Inl ValueError"
    by (simp add: TimeInvariantEnh_init_def)
  have 3: "weight b = Some path \<and> path \<noteq> [] \<and> th_load elib path = Inr w \<and>
    (shape_at w 1 \<noteq> Inr (spatial_filters b) \<or> shape_at w 2 \<noteq> Inr (num_channels b))
      \<longrightarrow> isl (TimeInvariantEnh_init elib b)"
    using load_weight_raises TimeInvariantEnh_init_weight_raises by blast
  have 4: "activation \<noteq> ''relu'' \<and> activation \<noteq> ''gelu''
      \<longrightarrow> get_activation_fn activation = Inl RuntimeError"
    by (simp add: get_activation_fn_def)
  show ?thesis using 1 2 3 4 by blast
qed

theorem construction_validation_raises_witness:
  "(sos demo_asr_args < 0 \<or> eos demo_asr_args < 0) \<and> isl (AttASR_init demo_asr_lib demo_asr_args) \<and>
   spectra_init (demo_enh_args\<lparr>spectra_init := ''xavier''\<rparr>) \<noteq> ''mel'' \<and>
   spectra_init (demo_enh_args\<lparr>spectra_init := ''xavier''\<rparr>) \<noteq> ''random'' \<and>
   TimeInvariantEnh_init demo_enh_lib (demo_enh_args\<lparr>spectra_init := ''xavier''\<rparr>) = Inl ValueError \<and>
   weight (demo_enh_args\<lparr>weight := Some ''beam.pt''\<rparr>) = Some ''beam.pt'' \<and>
   th_load demo_enh_lib ''beam.pt'' = Inr [2, 2, 3, 3] \<and>
   shape_at [2, 2, 3, 3] 2 \<noteq> Inr (num_channels (demo_enh_args\<lparr>weight := Some ''beam.pt''\<rparr>)) \<and>
   isl (TimeInvariantEnh_init demo_enh_lib (demo_enh_args\<lparr>weight := Some ''beam.pt''\<rparr>)) \<and>
   ''tanh'' \<noteq> ''relu'' \<and> ''tanh'' \<noteq> ''gelu'' \<and> get_activation_fn ''tanh'' = Inl RuntimeError"
proof -
  have h1: "sos demo_asr_args < 0 \<or> eos demo_asr_args < 0" by (simp add: demo_asr_args_def)
  have h2: "spectra_init (demo_enh_args\<lparr>spectra_init := ''xavier''\<rparr>) \<noteq> ''mel'' \<and>
            spectra_init (demo_enh_args\<lparr>spectra_init := ''xavier''\<rparr>) \<noteq> ''random''" by simp
  have h3: "weight (demo_enh_args\<lparr>weight := Some ''beam.pt''\<rparr>) = Some ''beam.pt'' \<and>
            ''beam.pt'' \<noteq> [] \<and> th_load demo_enh_lib ''beam.pt'' = Inr [2, 2, 3, 3] \<and>
            (shape_at [2, 2, 3, 3] 1 \<noteq> Inr (spatial_filters (demo_enh_args\<lparr>weight := Some ''beam.pt''\<rparr>)) \<or>
             shape_at [2, 2, 3, 3] 2 \<noteq> Inr (num_channels (demo_enh_args\<lparr>weight := Some ''beam.pt''\<rparr>)))"
    by (simp add: demo_enh_lib_def demo_enh_args_def shape_at_def)
  have h4: "''tanh'' \<noteq> ''relu'' \<and> ''tanh'' \<noteq> ''gelu''" by simp
  note t = construction_validation_raises[of demo_asr_args demo_asr_lib
      "demo_enh_args\<lparr>spectra_init := ''xavier''\<rparr>" demo_enh_lib _ _ "''tanh''"]
  note u = construction_validation_raises[of demo_asr_args demo_asr_lib
      "demo_enh_args\<lparr>weight := Some ''beam.pt''\<rparr>" demo_enh_lib "''beam.pt''" "[2, 2, 3, 3]" "''tanh''"]
  have c1: "isl (AttASR_init demo_asr_lib demo_asr_args)" using t h1 by blast
  have c2: "TimeInvariantEnh_init demo_enh_lib (demo_enh_args\<lparr>spectra_init := ''xavier''\<rparr>) = Inl ValueError"
    using t h2 by blast
  have c3: "isl (TimeInvariantEnh_init demo_enh_lib (demo_enh_args\<lparr>weight := Some ''beam.pt''\<rparr>))"
    using u h3 by blast
  have c4: "get_activation_fn ''tanh'' = Inl RuntimeError" using t h4 by blast
  show ?thesis using h1 h2 h3 h4 c1 c2 c3 c4
    by (simp add: demo_enh_args_def shape_at_def)
qed
section \<open>Properties of the front-end's forward pass\<close>

lemma view_dims_lead:
  "view_dims ds [- 1, int a, int b] =
     (if a * b = 0 \<or> prod_list ds mod (a * b) \<noteq> 0 then Inl RuntimeError
      else Inr [prod_list ds div (a * b), a, b])"
  by (simp add: view_dims_def Let_def nat_mult_distrib)

lemma view_dims_last4:
  "view_dims ds [int a, int b, int c, - 1] =
     (if a * b * c = 0 \<or> prod_list ds mod (a * b * c) \<noteq> 0 then Inl RuntimeError
      else Inr [a, b, c, prod_list ds div (a * b * c)])"
  by (simp add: view_dims_def Let_def nat_mult_distrib mult.assoc)

lemma view_dims_last3:
  "view_dims ds [int a, int b, - 1] =
     (if a * b = 0 \<or> prod_list ds mod (a * b) \<noteq> 0 then Inl RuntimeError
      else Inr [a, b, prod_list ds div (a * b)])"
  by (simp add: view_dims_def Let_def nat_mult_distrib)

lemma broadcast_same: "broadcast ds ds = Inr ds"
proof -
  have "broadcast_rev xs xs = Inr xs" for xs :: "nat list"
    by (induction xs) simp_all
  then show ?thesis by (simp add: broadcast_def)
qed

lemma TimeInvariantEnh_init_fields:
  assumes "TimeInvariantEnh_init lib a = Inr m"
  shows "enh_C m = num_channels a" "enh_B m = spatial_filters a"
    "conv_real (enh_conv m) = \<lparr>in_channels = num_bins a,
        out_channels = spatial_filters a * num_bins a, kernel_size = num_channels a,
        groups = num_bins a\<rparr>"
    "conv_imag (enh_conv m) = conv_real (enh_conv m)"
    "enh_norm m = (if batchnorm a then Some (spatial_filters a) else None)"
    "0 < num_bins a"
  using assms
  by (auto simp add: TimeInvariantEnh_init_def ComplexConv1d_def Conv1d_def and_then_def
      split: if_splits sum.splits)

lemma forward_channel_mismatch:
  "dims x = [N, C, F, T] \<Longrightarrow> C \<noteq> enh_C m \<Longrightarrow> TimeInvariantEnh_forward m x = Inl RuntimeError"
  by (simp add: TimeInvariantEnh_forward_def)

lemma forward_bins_mismatch:
  assumes "dims x = [N, C, F, T]" "C = enh_C m" "F \<noteq> in_channels (conv_real (enh_conv m))"
  shows "TimeInvariantEnh_forward m x = Inl RuntimeError"
  using assms
  by (simp add: TimeInvariantEnh_forward_def transpose_dims_def view_dims_lead
      ComplexConvXd_forward_sig_def Conv1d_apply_def)

lemma forward_returns:
  assumes x: "dims x = [N, C, F, T]" "is_complex x"
    and m: "enh_C m = C" "enh_B m = B"
      "conv_real (enh_conv m) = \<lparr>in_channels = F, out_channels = B * F, kernel_size = C,
         groups = F\<rparr>"
      "conv_imag (enh_conv m) = conv_real (enh_conv m)"
      "weight_dims (enh_proj m) = [D, F]"
      "enh_norm m = None \<or> enh_norm m = Some B"
    and pos: "0 < N" "0 < C" "0 < F" "0 < T" "0 < B" "0 < D"
    and bn: "\<not> (enh_norm m \<noteq> None \<and> enh_training m \<and> N * T * D = 1)"
  shows "TimeInvariantEnh_forward m x = Inr \<lparr>is_complex = False, dims = [N, T, B * D]\<rparr>"
proof -
  have d1: "transpose_dims 1 3 (dims x) = Inr [N, T, F, C]"
    by (simp add: transpose_dims_def x)
  have e2: "(N * (T * (F * C))) div (F * C) = N * T"
    using pos by (metis mult.assoc nonzero_mult_div_cancel_right mult_is_0 less_numeral_extra(3))
  have d2: "view_dims [N, T, F, C] [- 1, int F, int C] = Inr [N * T, F, C]"
    using pos e2 by (simp add: view_dims_lead)
  have cv: "ComplexConvXd_forward_sig (enh_conv m) \<lparr>is_complex = is_complex x, dims = [N * T, F, C]\<rparr> True
            = Inr \<lparr>is_complex = False, dims = [N * T, B * F, 1]\<rparr>"
    using x(2) by (simp add: ComplexConvXd_forward_sig_def Conv1d_apply_def m broadcast_same)
  have e3: "(N * T * (B * F)) div (F * B) = N * T"
    using pos by (simp add: mult.commute)
  have d3: "view_dims [N * T, B * F, 1] [- 1, int F, int B] = Inr [N * T, F, B]"
    using pos e3 by (simp add: view_dims_lead mult.commute)
  have d4: "transpose_dims 1 2 [N * T, F, B] = Inr [N * T, B, F]"
    by (simp add: transpose_dims_def)
  have d5: "Linear_apply (enh_proj m) [N * T, B, F] = Inr [N * T, B, D]"
    by (simp add: Linear_apply_def m)
  have e6: "(N * T * (B * D)) div (N * T * B) = D"
    using pos by (simp add: mult.assoc)
  have d6: "view_dims [N * T, B, D] [int N, int T, int B, - 1] = Inr [N, T, B, D]"
    using pos e6 by (simp add: view_dims_last4 mult.assoc)
  have d7: "transpose_dims 1 2 [N, T, B, D] = Inr [N, B, T, D]"
    by (simp add: transpose_dims_def)
  have d8: "(case enh_norm m of None \<Rightarrow> Inr [N, B, T, D]
             | Some nf \<Rightarrow> BatchNorm2d_apply nf (enh_training m) [N, B, T, D]) = Inr [N, B, T, D]"
    using m(6) bn by (auto simp add: BatchNorm2d_apply_def mult.assoc)
  have d9: "transpose_dims 1 2 [N, B, T, D] = Inr [N, T, B, D]"
    by (simp add: transpose_dims_def)
  have e10: "(N * (T * (B * D))) div (N * T) = B * D"
    using pos by (simp add: mult.assoc[symmetric])
  have d10: "view_dims [N, T, B, D] [int N, int T, - 1] = Inr [N, T, B * D]"
    using pos e10 by (simp add: view_dims_last3 mult.assoc)
  show ?thesis
    unfolding TimeInvariantEnh_forward_def
    by (simp add: x(1) m(1,2) d1[unfolded x(1)] d2 cv d3 d4 d5 d6 d7 d8 d9 d10
        del: One_nat_def)
qed


lemmas enh_eval = TimeInvariantEnh_forward_def transpose_dims_def view_dims_def Let_def
  ComplexConvXd_forward_sig_def Conv1d_apply_def Linear_apply_def BatchNorm2d_apply_def
  broadcast_def demo_enh_def

lemma demo_enh_init: "TimeInvariantEnh_init demo_enh_lib demo_enh_args = Inr demo_enh"
  by (simp add: TimeInvariantEnh_init_def demo_enh_lib_def demo_enh_args_def demo_enh_def
      ComplexConv1d_def Conv1d_def load_weight_def)

text \<open>
  Claim C9 as stated fails: the module below is configured for 2 channels and 3 bins; on a
  complex input of shape \<open>1 x 2 x 4 x 7\<close> the channel count matches, and still the forward
  pass raises \<open>RuntimeError\<close> (in the convolution, which expects 3 bins) and returns no tensor.
\<close>

theorem forward_raises_on_matching_channels:
  "TimeInvariantEnh_init demo_enh_lib demo_enh_args = Inr demo_enh \<and>
   num_channels demo_enh_args = 2 \<and>
   TimeInvariantEnh_forward demo_enh \<lparr>is_complex = True, dims = [1, 2, 4, 7]\<rparr> =
     Inl RuntimeError"
  by (simp add: demo_enh_init) (simp add: demo_enh_args_def enh_eval)

text \<open>
  Claim C9, as amended. Let the module be built by \<open>TimeInvariantEnh.__init__\<close>, in training
  or evaluation mode, and let the input have the shape \<open>N x C x F x T\<close>. If \<open>C\<close> differs from
  \<open>num_channels\<close> the forward pass raises \<open>RuntimeError\<close>. If \<open>C\<close> matches and \<open>F\<close> differs
  from \<open>num_bins\<close> it raises \<open>RuntimeError\<close> as well. If the input is complex, \<open>C\<close> and \<open>F\<close>
  match, all sizes are positive, the projection weight is \<open>spectra_filters x num_bins\<close> and
  batch normalisation in training mode is not given a single value per channel, it returns
  a real tensor of shape \<open>N x T x (spatial_filters * spectra_filters)\<close>.
\<close>

theorem TimeInvariantEnh_forward_shapes:
  assumes "TimeInvariantEnh_init lib a = Inr m"
    and "dims x = [N, C, F, T]"
  shows "(C \<noteq> num_channels a \<longrightarrow>
            TimeInvariantEnh_forward (m\<lparr>enh_training := tr\<rparr>) x = Inl RuntimeError) \<and>
         (C = num_channels a \<and> F \<noteq> num_bins a \<longrightarrow>
            TimeInvariantEnh_forward (m\<lparr>enh_training := tr\<rparr>) x = Inl RuntimeError) \<and>
         (is_complex x \<and> C = num_channels a \<and> F = num_bins a \<and>
          0 < N \<and> 0 < C \<and> 0 < T \<and> 0 < spatial_filters a \<and> 0 < spectra_filters a \<and>
          weight_dims (enh_proj m) = [spectra_filters a, num_bins a] \<and>
          \<not> (batchnorm a \<and> tr \<and> N * T * spectra_filters a = 1) \<longrightarrow>
            TimeInvariantEnh_forward (m\<lparr>enh_training := tr\<rparr>) x =
              Inr \<lparr>is_complex = False, dims = [N, T, spatial_filters a * spectra_filters a]\<rparr>)"
proof -
  let ?m = "m\<lparr>enh_training := tr\<rparr>"
  note f = TimeInvariantEnh_init_fields[OF assms(1)]
  have 1: "C \<noteq> num_channels a \<longrightarrow> TimeInvariantEnh_forward ?m x = Inl RuntimeError"
    using forward_channel_mismatch[OF assms(2), of ?m] f(1) by simp
  have 2: "C = num_channels a \<and> F \<noteq> num_bins a \<longrightarrow>
             TimeInvariantEnh_forward ?m x = Inl RuntimeError"
    using forward_bins_mismatch[OF assms(2), of ?m] f(1,3) by simp
  have 3: "is_complex x \<and> C = num_channels a \<and> F = num_bins a \<and>
          0 < N \<and> 0 < C \<and> 0 < T \<and> 0 < spatial_filters a \<and> 0 < spectra_filters a \<and>
          weight_dims (enh_proj m) = [spectra_filters a, num_bins a] \<and>
          \<not> (batchnorm a \<and> tr \<and> N * T * spectra_filters a = 1) \<longrightarrow>
            TimeInvariantEnh_forward ?m x =
              Inr \<lparr>is_complex = False, dims = [N, T, spatial_filters a * spectra_filters a]\<rparr>"
  proof (intro impI, elim conjE, rule forward_returns[OF assms(2)])
    assume h: "is_complex x" "C = num_channels a" "F = num_bins a" "0 < N" "0 < C" "0 < T"
      "0 < spatial_filters a" "0 < spectra_filters a"
      "weight_dims (enh_proj m) = [spectra_filters a, num_bins a]"
      "\<not> (batchnorm a \<and> tr \<and> N * T * spectra_filters a = 1)"
    show "is_complex x" by (rule h(1))
    show "enh_C ?m = C" using f(1) h(2) by simp
    show "enh_B ?m = spatial_filters a" using f(2) by simp
    show "conv_real (enh_conv ?m) = \<lparr>in_channels = F, out_channels = spatial_filters a * F,
            kernel_size = C, groups = F\<rparr>" using f(3) h(2,3) by simp
    show "conv_imag (enh_conv ?m) = conv_real (enh_conv ?m)" using f(4) by simp
    show "weight_dims (enh_proj ?m) = [spectra_filters a, F]" using h(9,3) by simp
    show "enh_norm ?m = None \<or> enh_norm ?m = Some (spatial_filters a)" using f(5) by simp
    show "0 < N" "0 < C" "0 < T" "0 < spatial_filters a" "0 < spectra_filters a"
      using h by simp_all
    show "0 < F" using f(6) h(3) by simp
    show "\<not> (enh_norm ?m \<noteq> None \<and> enh_training ?m \<and> N * T * spectra_filters a = 1)"
      using h(10) f(5) by auto
  qed
  show ?thesis by (rule conjI[OF 1 conjI[OF 2 3]])
qed

theorem TimeInvariantEnh_forward_shapes_witness:
  "TimeInvariantEnh_init demo_enh_lib demo_enh_args = Inr demo_enh \<and>
   TimeInvariantEnh_forward (demo_enh\<lparr>enh_training := True\<rparr>)
     \<lparr>is_complex = True, dims = [1, 3, 3, 7]\<rparr> = Inl RuntimeError \<and>
   TimeInvariantEnh_forward (demo_enh\<lparr>enh_training := True\<rparr>)
     \<lparr>is_complex = True, dims = [1, 2, 4, 7]\<rparr> = Inl RuntimeError \<and>
   TimeInvariantEnh_forward (demo_enh\<lparr>enh_training := True\<rparr>)
     \<lparr>is_complex = True, dims = [1, 2, 3, 7]\<rparr> = Inr \<lparr>is_complex = False, dims = [1, 7, 10]\<rparr>"
proof -
  note i = demo_enh_init
  have a: "TimeInvariantEnh_forward (demo_enh\<lparr>enh_training := True\<rparr>)
     \<lparr>is_complex = True, dims = [1, 3, 3, 7]\<rparr> = Inl RuntimeError"
    using TimeInvariantEnh_forward_shapes[OF i, of "\<lparr>is_complex = True, dims = [1, 3, 3, 7]\<rparr>"
        1 3 3 7 True]
    by (simp add: demo_enh_args_def)
  have b: "TimeInvariantEnh_forward (demo_enh\<lparr>enh_training := True\<rparr>)
     \<lparr>is_complex = True, dims = [1, 2, 4, 7]\<rparr> = Inl RuntimeError"
    using TimeInvariantEnh_forward_shapes[OF i, of "\<lparr>is_complex = True, dims = [1, 2, 4, 7]\<rparr>"
        1 2 4 7 True]
    by (simp add: demo_enh_args_def)
  have c: "TimeInvariantEnh_forward (demo_enh\<lparr>enh_training := True\<rparr>)
     \<lparr>is_complex = True, dims = [1, 2, 3, 7]\<rparr> = Inr \<lparr>is_complex = False, dims = [1, 7, 10]\<rparr>"
    using TimeInvariantEnh_forward_shapes[OF i, of "\<lparr>is_complex = True, dims = [1, 2, 3, 7]\<rparr>"
        1 2 3 7 True]
    by (simp add: demo_enh_args_def demo_enh_def)
  show ?thesis using i a b c by simp
qed
section \<open>Properties of the complex convolution\<close>

lemma pointwise_same:
  "shape a = shape b \<Longrightarrow>
   pointwise f a b = Inr \<lparr>shape = shape a, data = map2 f (data a) (data b)\<rparr>"
  by (simp add: pointwise_def)

lemma pow_half_nonneg: "0 \<le> eps \<Longrightarrow> pow_half (r\<^sup>2 + i\<^sup>2 + eps) = Finite (sqrt (r\<^sup>2 + i\<^sup>2 + eps))"
proof -
  assume "0 \<le> eps"
  then have "0 \<le> r\<^sup>2 + i\<^sup>2 + eps" by (simp add: add_nonneg_nonneg)
  then show ?thesis by (simp add: pow_half_def)
qed

text \<open>
  Claim C4. On a complex input with parts \<open>xr\<close> and \<open>xi\<close> on which the two real convolutions
  succeed with results of one shape, \<open>ComplexConvXd.forward\<close> returns the complex tensor with
  real part \<open>real(xr) - imag(xi)\<close> and imaginary part \<open>real(xi) + imag(xr)\<close>; with \<open>add_abs\<close>
  it returns instead, entry by entry, \<open>(re\<^sup>2 + im\<^sup>2 + eps) ** 0.5\<close> of these two parts, which
  for \<open>eps\<close> not below zero is the square root of \<open>re\<^sup>2 + im\<^sup>2 + eps\<close>. An input that is
  not a complex tensor raises \<open>RuntimeError\<close>.
\<close>

theorem ComplexConvXd_forward_identity:
  assumes "conv_re xr = Inr rr" and "conv_im xi = Inr ii"
    and "conv_re xi = Inr ri" and "conv_im xr = Inr ir"
    and "shape rr = shape ii" and "shape ri = shape ir" and "shape rr = shape ri"
  shows "ComplexConvXd_forward conv_re conv_im (ComplexTensor xr xi) False eps =
           Inr (ComplexResult
                  \<lparr>shape = shape rr, data = map2 (-) (data rr) (data ii)\<rparr>
                  \<lparr>shape = shape ri, data = map2 (+) (data ri) (data ir)\<rparr>) \<and>
         ComplexConvXd_forward conv_re conv_im (ComplexTensor xr xi) True eps =
           Inr (AbsResult
                  \<lparr>shape = shape rr,
                   data = map2 (\<lambda>re im. pow_half (re\<^sup>2 + im\<^sup>2 + eps))
                            (map2 (-) (data rr) (data ii))
                            (map2 (+) (data ri) (data ir))\<rparr>) \<and>
         (0 \<le> eps \<longrightarrow>
            (\<forall>re im. pow_half (re\<^sup>2 + im\<^sup>2 + eps) = Finite (sqrt (re\<^sup>2 + im\<^sup>2 + eps)))) \<and>
         ComplexConvXd_forward conv_re conv_im OtherObject add_abs eps = Inl RuntimeError"
proof -
  have br: "pointwise (-) rr ii = Inr \<lparr>shape = shape rr, data = map2 (-) (data rr) (data ii)\<rparr>"
    using assms(5) by (rule pointwise_same)
  have bi: "pointwise (+) ri ir = Inr \<lparr>shape = shape ri, data = map2 (+) (data ri) (data ir)\<rparr>"
    using assms(6) by (rule pointwise_same)
  have a: "ComplexConvXd_forward conv_re conv_im (ComplexTensor xr xi) False eps =
           Inr (ComplexResult
                  \<lparr>shape = shape rr, data = map2 (-) (data rr) (data ii)\<rparr>
                  \<lparr>shape = shape ri, data = map2 (+) (data ri) (data ir)\<rparr>)"
    by (simp add: ComplexConvXd_forward_def assms(1-4) br bi)
  have b: "ComplexConvXd_forward conv_re conv_im (ComplexTensor xr xi) True eps =
           Inr (AbsResult
                  \<lparr>shape = shape rr,
                   data = map2 (\<lambda>re im. pow_half (re\<^sup>2 + im\<^sup>2 + eps))
                            (map2 (-) (data rr) (data ii))
                            (map2 (+) (data ri) (data ir))\<rparr>)"
    using assms(5-7) by (simp add: ComplexConvXd_forward_def assms(1-4) br bi pointwise_def)
  have c: "0 \<le> eps \<longrightarrow>
            (\<forall>re im. pow_half (re\<^sup>2 + im\<^sup>2 + eps) = Finite (sqrt (re\<^sup>2 + im\<^sup>2 + eps)))"
    using pow_half_nonneg by blast
  have d: "ComplexConvXd_forward conv_re conv_im OtherObject add_abs eps = Inl RuntimeError"
    by (simp add: ComplexConvXd_forward_def)
  show ?thesis by (rule conjI[OF a conjI[OF b conjI[OF c d]]])
qed

theorem ComplexConvXd_forward_identity_witness:
  "ComplexConvXd_forward (demo_conv 2) (demo_conv 3)
     (ComplexTensor \<lparr>shape = [2], data = [1, 0]\<rparr> \<lparr>shape = [2], data = [0, 1]\<rparr>) False 3 =
     Inr (ComplexResult \<lparr>shape = [2], data = [2, - 3]\<rparr> \<lparr>shape = [2], data = [3, 2]\<rparr>) \<and>
   ComplexConvXd_forward (demo_conv 2) (demo_conv 3)
     (ComplexTensor \<lparr>shape = [2], data = [1, 0]\<rparr> \<lparr>shape = [2], data = [0, 1]\<rparr>) True 3 =
     Inr (AbsResult \<lparr>shape = [2], data = [Finite 4, Finite 4]\<rparr>)"
proof -
  let ?xr = "\<lparr>shape = [2], data = [1, 0 :: real]\<rparr>"
  let ?xi = "\<lparr>shape = [2], data = [0, 1 :: real]\<rparr>"
  have h: "demo_conv 2 ?xr = Inr \<lparr>shape = [2], data = [2, 0]\<rparr>"
    "demo_conv 3 ?xi = Inr \<lparr>shape = [2], data = [0, 3]\<rparr>"
    "demo_conv 2 ?xi = Inr \<lparr>shape = [2], data = [0, 2]\<rparr>"
    "demo_conv 3 ?xr = Inr \<lparr>shape = [2], data = [3, 0]\<rparr>"
    by (simp_all add: demo_conv_def)
  have e: "(0::real) \<le> 3" by simp
  from ComplexConvXd_forward_identity[OF h, of 3] e
  show ?thesis by (simp add: pow_half_def)
qed
section \<open>Properties of single-precision rounding\<close>


lemma rne_of_int [simp]: "rne (of_int n) = n"
  by (simp add: rne_def)





lemma ulp_nonzero [simp]: "ulp x \<noteq> 0"
  by (simp add: ulp_def)





lemma ulp_times_2_23: "ulp x * 8388608 = 2 powr (of_int (expo x))"
proof -
  have "ulp x * 8388608 = ulp x * 2 powr 23" by simp
  also have "\<dots> = 2 powr (of_int (expo x) - 23 + 23)"
    unfolding ulp_def by (rule powr_add[symmetric])
  also have "\<dots> = 2 powr (of_int (expo x))" by simp
  finally show ?thesis .
qed






lemma round32_pow2:
  assumes "- 126 \<le> k"
  shows "round32 (2 powr (of_int k)) = 2 powr (of_int k)"
proof -
  let ?x = "2 powr (real_of_int k)"
  have e: "expo ?x = k" using assms by (simp add: expo_def)
  have u: "ulp ?x * 8388608 = ?x" using ulp_times_2_23[of ?x] by (simp only: e)
  have "?x / ulp ?x = ulp ?x * 8388608 / ulp ?x" by (simp only: u)
  also have "\<dots> = of_int 8388608" by simp
  finally have "?x / ulp ?x = of_int 8388608" .
  then have "rne (?x / ulp ?x) = 8388608" by (simp only: rne_of_int)
  then have "round32 ?x = ulp ?x * 8388608" by (simp add: round32_def)
  then show ?thesis by (simp only: u)
qed

lemma max32_pos: "0 < max32"
  by (simp add: max32_def)

lemma fl_not_nan [simp]: "fl x \<noteq> NaN"
  by (simp add: fl_def Let_def)


lemma round32_zero [simp]: "round32 0 = 0"
  by (simp add: round32_def)










lemma max32_ge_2: "2 \<le> max32"
  by (simp add: max32_def)

lemma fl_small: "\<bar>round32 x\<bar> \<le> 2 \<Longrightarrow> fl x = Finite (round32 x)"
  using max32_ge_2 by (auto simp add: fl_def Let_def)

lemma fl_0 [simp]: "fl 0 = Finite 0"
  by (simp add: fl_small)

lemma round32_1 [simp]: "round32 1 = 1"
  using round32_pow2[of 0] by simp

lemma fl_1 [simp]: "fl 1 = Finite 1"
  by (simp add: fl_small)

lemma EPSILON_gt_0 [simp]: "0 < EPSILON"
  by (simp add: EPSILON_def)

lemma EPSILON_ge_0 [simp]: "\<not> 1 + EPSILON < 0"
  by (simp add: EPSILON_def)





lemma max32_bounds: "2 powr 127 \<le> max32" "max32 < 2 powr 128"
  by (simp_all add: max32_def)

lemma fl_pow2:
  assumes "- 126 \<le> k" "k \<le> 127"
  shows "fl (2 powr (of_int k)) = Finite (2 powr (of_int k))"
proof -
  have r: "round32 (2 powr (of_int k)) = 2 powr (of_int k)" using assms(1) by (rule round32_pow2)
  have "(2::real) powr (of_int k) \<le> 2 powr 127" using assms(2) by (intro powr_mono) simp_all
  then have "2 powr (of_int k) \<le> max32" using max32_bounds(1) by linarith
  moreover have "- max32 \<le> 2 powr (of_int k)"
    using max32_pos powr_gt_zero[of 2 "of_int k"] by linarith
  ultimately show ?thesis by (simp add: fl_def r)
qed

lemma fl_pow2_overflow:
  assumes "128 \<le> k"
  shows "fl (2 powr (of_int k)) = PosInf"
proof -
  have "- 126 \<le> k" using assms by simp
  then have r: "round32 (2 powr (of_int k)) = 2 powr (of_int k)" by (rule round32_pow2)
  have "(2::real) powr 128 \<le> 2 powr (of_int k)" using assms by (intro powr_mono) simp_all
  then have "max32 < 2 powr (of_int k)" using max32_bounds(2) by linarith
  then show ?thesis by (simp add: fl_def r)
qed

lemma fl_2 [simp]: "fl 2 = Finite 2"
  using fl_pow2[of 1] by simp

lemma fl_4 [simp]: "fl 4 = Finite 4"
  using fl_pow2[of 2] by simp

lemma fl_half [simp]: "fl (1 / 2) = Finite (1 / 2)"
  using fl_pow2[of "- 1"] by (simp add: powr_minus_divide)

lemma fl_EPSILON [simp]: "fl EPSILON = Finite EPSILON"
  using fl_pow2[of "- 23"] by (simp add: powr_minus_divide EPSILON_def)

lemma fl_2_67: "fl (2 ^ 67) = Finite (2 ^ 67)"
  using fl_pow2[of 67] by simp

lemma fl_2_134: "fl (2 ^ 67 * 2 ^ 67) = PosInf"
proof -
  have "(2::real) ^ 67 * 2 ^ 67 = 2 powr (of_int 134)" by simp
  then show ?thesis using fl_pow2_overflow[of 134] by (simp only:)
qed










section \<open>Properties of the normalised phase\<close>










section \<open>Properties of the log-pdf\<close>

lemma at_least_clamp_min [simp]: "at_least lo (clamp_min x lo) \<longleftrightarrow> clamp_min x lo \<noteq> NaN"
  by (cases x) simp_all

lemma hermitian_det_clamped:
  "hermitian_det lib Bk eps = Inr d \<Longrightarrow> d = NaN \<or> at_least eps d"
  by (auto simp add: hermitian_det_def Let_def and_then_def split: sum.splits if_splits)

lemma log_pdf_args_clamped:
  assumes "log_pdf_args lib msk obs eps = Inr (K, Dk)"
  shows "Dk = NaN \<or> at_least eps Dk" and "\<forall>k\<in>set K. k = NaN \<or> at_least eps k"
  using assms
  by (auto simp add: log_pdf_args_def Let_def and_then_def
      dest!: hermitian_det_clamped split: sum.splits)

lemma clamped_not_positive:
  "0 < eps \<Longrightarrow> x = NaN \<or> at_least eps x \<Longrightarrow> \<not> not_positive x"
  by (cases x) auto

text \<open>
  Claim C8, as amended. Let \<open>eps\<close> be a single-precision number. Whenever the library
  routines return, the determinant that \<open>hermitian_det\<close> returns and every entry of \<open>K\<close> are
  each either not-a-number or a number at least \<open>eps\<close>: the two clamps bound from below every
  entry that is a number, and pass not-a-number through. With \<open>eps\<close> above zero, as the
  default \<open>EPSILON\<close> is, neither logarithm in \<open>log_pdf\<close> is taken of zero or of a negative
  number.
\<close>

theorem log_pdf_arguments_clamped_or_nan:
  assumes "round32 eps = eps" and "\<bar>eps\<bar> \<le> max32"
  shows "0 < EPSILON \<and>
   (hermitian_det lib B eps = Inr d \<longrightarrow> d = NaN \<or> at_least eps d) \<and>
   (log_pdf_args lib msk obs eps = Inr (K, Dk) \<longrightarrow>
      (Dk = NaN \<or> at_least eps Dk) \<and> (\<forall>k\<in>set K. k = NaN \<or> at_least eps k)) \<and>
   (0 < eps \<and> log_pdf_args lib msk obs eps = Inr (K, Dk) \<longrightarrow>
      \<not> not_positive Dk \<and> (\<forall>k\<in>set K. \<not> not_positive k))"
proof -
  have 0: "0 < EPSILON" by (simp add: EPSILON_def)
  have 1: "hermitian_det lib B eps = Inr d \<longrightarrow> d = NaN \<or> at_least eps d"
    using hermitian_det_clamped by blast
  have 2: "log_pdf_args lib msk obs eps = Inr (K, Dk) \<longrightarrow>
      (Dk = NaN \<or> at_least eps Dk) \<and> (\<forall>k\<in>set K. k = NaN \<or> at_least eps k)"
    using log_pdf_args_clamped by blast
  have 3: "0 < eps \<and> log_pdf_args lib msk obs eps = Inr (K, Dk) \<longrightarrow>
      \<not> not_positive Dk \<and> (\<forall>k\<in>set K. \<not> not_positive k)"
    using log_pdf_args_clamped clamped_not_positive by blast
  show ?thesis by (rule conjI[OF 0 conjI[OF 1 conjI[OF 2 3]]])
qed

lemma demo_nan_run:
  "log_pdf_args demo_cf_lib [Finite 1] [[(NaN, Finite 0)]] EPSILON = Inr ([NaN], NaN)"
  by (simp add: log_pdf_args_def estimate_covar_def hermitian_det_def demo_cf_lib_def
      ct_conj_def c_mul_def c_recip_def cumprod_def Let_def f32_sub_def)

lemmas log_pdf_eval = log_pdf_args_def estimate_covar_def hermitian_det_def demo_cf_lib_def
  ct_conj_def c_mul_def c_recip_def cumprod_def Let_def f32_sub_def inf_signed_def

lemma demo_overflow_run:
  "map_sum id fst (log_pdf_args demo_cf_lib [Finite 1] [[(Finite (2 ^ 67), Finite 0)]] EPSILON) =
     Inr [NaN]"
  using fl_2_67 fl_2_134 by (simp add: log_pdf_eval)

lemma demo_finite_run:
  "log_pdf_args demo_cf_lib [Finite 1] [[(Finite 1, Finite 0)]] 1 = Inr ([Finite 1], Finite 2)"
  by (simp add: log_pdf_eval)

text \<open>
  Claim C8 as stated fails: an observation holding not-a-number gives not-a-number at both
  logarithm arguments, and the finite observation \<open>2\<^sup>6\<^sup>7\<close>, whose square overflows, gives
  not-a-number in \<open>K\<close>; the clamp passes it on, and not-a-number is not at least \<open>eps\<close>.
\<close>

theorem log_argument_not_a_number:
  "log_pdf_args demo_cf_lib [Finite 1] [[(NaN, Finite 0)]] EPSILON = Inr ([NaN], NaN) \<and>
   map_sum id fst (log_pdf_args demo_cf_lib [Finite 1] [[(Finite (2 ^ 67), Finite 0)]] EPSILON) =
     Inr [NaN] \<and>
   \<not> at_least EPSILON NaN"
  using demo_nan_run demo_overflow_run by simp

theorem log_pdf_arguments_clamped_or_nan_witness:
  "round32 1 = 1 \<and> \<bar>1\<bar> \<le> max32 \<and> 0 < EPSILON \<and>
   hermitian_det demo_cf_lib [[(Finite 2, Finite 0)]] 1 = Inr (Finite 2) \<and>
   at_least 1 (Finite 2) \<and>
   log_pdf_args demo_cf_lib [Finite 1] [[(Finite 1, Finite 0)]] 1 = Inr ([Finite 1], Finite 2) \<and>
   at_least 1 (Finite 1) \<and> (0::real) < 1 \<and>
   \<not> not_positive (Finite 2) \<and> \<not> not_positive (Finite 1)"
proof -
  have r: "round32 1 = 1" by (rule round32_1)
  have b: "\<bar>1\<bar> \<le> max32" using max32_ge_2 by simp
  have h: "hermitian_det demo_cf_lib [[(Finite 2, Finite 0)]] 1 = Inr (Finite 2)"
    by (simp add: hermitian_det_def demo_cf_lib_def cumprod_def Let_def)
  note t = log_pdf_arguments_clamped_or_nan[OF r b, of demo_cf_lib "[[(Finite 2, Finite 0)]]"
      "Finite 2" "[Finite 1]" "[[(Finite 1, Finite 0)]]" "[Finite 1]" "Finite 2"]
  show ?thesis using t h b demo_finite_run by simp
qed
section \<open>Properties of the attention module\<close>

lemma proj_without_bias: "in_proj_bias m = None \<Longrightarrow> proj lib m base mat = Inl TypeError"
  by (simp add: proj_def Let_def)

text \<open>
  Claim C1. \<open>forward\<close> and the reference \<open>torch_forward\<close> do not agree on a module built
  with \<open>bias=False\<close>. The constructor then registers the input bias as \<open>None\<close>;
  \<open>forward\<close> indexes it in \<open>inp_proj\<close> and raises \<open>TypeError\<close> on every input, while
  \<open>torch_forward\<close> hands the same \<open>None\<close> to the library's reference computation.
\<close>

theorem forward_without_bias_raises:
  "map_sum id in_proj_bias (ApsMultiheadAttention_init lib E H p False) =
     map_sum id (\<lambda>m. None) (ApsMultiheadAttention_init lib E H p False) \<and>
   ApsMultiheadAttention_forward lib (m\<lparr>in_proj_bias := None\<rparr>) q k v key_padding_mask attn_mask =
     Inl TypeError \<and>
   torch_forward lib (m\<lparr>in_proj_bias := None\<rparr>) q k v key_padding_mask attn_mask =
     multi_head_attention_forward lib
       \<lparr>arg_query = q, arg_key = k, arg_value = v,
        arg_embed_dim_to_check = embed_dim m, arg_num_heads = num_heads m,
        arg_in_proj_weight = in_proj_weight m, arg_in_proj_bias = None,
        arg_bias_k = None, arg_bias_v = None, arg_add_zero_attn = False,
        arg_dropout_p = dropout_p m,
        arg_out_proj_weight = out_proj_weight m, arg_out_proj_bias = out_proj_bias m,
        arg_training = mha_training m, arg_key_padding_mask = key_padding_mask,
        arg_need_weights = True, arg_attn_mask = attn_mask\<rparr>"
proof -
  have a: "map_sum id in_proj_bias (ApsMultiheadAttention_init lib E H p False) =
     map_sum id (\<lambda>m. None) (ApsMultiheadAttention_init lib E H p False)"
    by (simp add: ApsMultiheadAttention_init_def)
  have b: "ApsMultiheadAttention_forward lib (m\<lparr>in_proj_bias := None\<rparr>) q k v
             key_padding_mask attn_mask = Inl TypeError"
    by (simp add: ApsMultiheadAttention_forward_def inp_proj_def proj_without_bias upt_rec)
  have c: "torch_forward lib (m\<lparr>in_proj_bias := None\<rparr>) q k v key_padding_mask attn_mask =
     multi_head_attention_forward lib
       \<lparr>arg_query = q, arg_key = k, arg_value = v,
        arg_embed_dim_to_check = embed_dim m, arg_num_heads = num_heads m,
        arg_in_proj_weight = in_proj_weight m, arg_in_proj_bias = None,
        arg_bias_k = None, arg_bias_v = None, arg_add_zero_attn = False,
        arg_dropout_p = dropout_p m,
        arg_out_proj_weight = out_proj_weight m, arg_out_proj_bias = out_proj_bias m,
        arg_training = mha_training m, arg_key_padding_mask = key_padding_mask,
        arg_need_weights = True, arg_attn_mask = attn_mask\<rparr>"
    by (simp add: torch_forward_def)
  show ?thesis by (rule conjI[OF a conjI[OF b c]])
qed

end
